theory Spec2Isabelle
  imports Complex_Main
begin

section \<open>Python values, exceptions and effects\<close>

text \<open>
  The script \<^verbatim>\<open>remesh.py\<close> drives Blender through \<^verbatim>\<open>bpy\<close>. Blender is not part of
  the repository, so the mesh engine is a parameter of every definition below: a record of
  observers and operations on an arbitrary world type \<open>'w\<close>. An operation returns the world
  it leaves behind together with the exception it raised, if any, so that a partial effect
  before a failure is a possible behaviour of the engine.

  Python floats are modelled as exact rationals. The comparisons of the script are between
  an integer face count and a product or quotient of an integer with one of the constants
  0.7, 0.8, 0.95, 1.3; for counts below \<open>2 ^ 49\<close> the rounded and the exact comparison agree.
  The target face count \<^verbatim>\<open>int(original_faces * (1 - target_reduction))\<close> is the one value
  that rounding can move, by one face; it only enters the bounds of the near-target test,
  and the examples below use reductions for which the float and the exact value coincide.
\<close>

datatype exn =
    RuntimeError | ReferenceError | AttributeError | TypeError | ValueError | ZeroDivisionError

datatype pyfloat = Finite rat | PosInf | NegInf | NaN

datatype modifier =
    Decimate_collapse rat bool "nat option"
      \<comment> \<open>\<^verbatim>\<open>ratio\<close>, \<^verbatim>\<open>use_collapse_triangulate\<close>, \<^verbatim>\<open>angle_limit\<close> in degrees when it is set\<close>
  | Decimate_unsubdiv nat
      \<comment> \<open>\<^verbatim>\<open>iterations\<close>\<close>
  | Decimate_dissolve nat bool
      \<comment> \<open>\<^verbatim>\<open>angle_limit\<close> in degrees, \<^verbatim>\<open>use_dissolve_boundaries\<close>\<close>
  | Subsurf nat nat
      \<comment> \<open>\<^verbatim>\<open>levels\<close>, \<^verbatim>\<open>render_levels\<close>\<close>
  | Edge_split nat
      \<comment> \<open>\<^verbatim>\<open>split_angle\<close> in degrees\<close>

text \<open>The lines the script prints, one constructor for each \<^verbatim>\<open>print\<close> of the modelled code.\<close>

datatype event =
    P_invalid_object
  | P_begin nat
  | P_too_few_faces
  | P_analysis nat nat rat rat
  | P_mesh_type string
  | P_strategy nat string
  | P_quadric rat
  | P_quadric_skip nat
  | P_quadric_unchanged
  | P_quadric_failed exn
  | P_unsubdiv nat
  | P_unsubdiv_failed exn
  | P_planar nat
  | P_planar_failed exn
  | P_subsurf
  | P_subdivided nat
  | P_adjusted rat
  | P_subsurf_failed exn
  | P_smooth_failed exn
  | P_result nat rat
  | P_near_target
  | P_postprocess
  | P_reduced nat nat rat
  | P_not_reduced
  | P_cli_reduction pyfloat
  | P_cli_invalid string
  | P_range_error pyfloat
  | P_banner pyfloat
  | P_no_files
  | P_found nat
  | P_file_ok nat nat
  | P_file_export_failed nat nat
  | P_file_failed nat nat
  | P_file_error nat nat exn
  | P_summary nat nat

record 'w engine =
  obj_name :: "'w \<Rightarrow> exn + string"
    \<comment> \<open>\<^verbatim>\<open>o.name\<close>: ReferenceError for a removed object, AttributeError for \<^verbatim>\<open>None\<close>\<close>
  obj_type :: "'w \<Rightarrow> string"
  polygons :: "'w \<Rightarrow> nat list"
    \<comment> \<open>the number of vertices of each polygon of \<^verbatim>\<open>obj.data\<close>\<close>
  vertices :: "'w \<Rightarrow> nat"
  set_active :: "'w \<Rightarrow> exn option \<times> 'w"
  mode_set :: "string \<Rightarrow> 'w \<Rightarrow> exn option \<times> 'w"
  modifiers_clear :: "'w \<Rightarrow> exn option \<times> 'w"
  modifiers_new :: "string \<Rightarrow> modifier \<Rightarrow> 'w \<Rightarrow> exn option \<times> 'w"
    \<comment> \<open>\<^verbatim>\<open>obj.modifiers.new\<close> followed by the assignments that configure the modifier\<close>
  view_layer_update :: "'w \<Rightarrow> exn option \<times> 'w"
  modifier_apply :: "string \<Rightarrow> 'w \<Rightarrow> exn option \<times> 'w"
  select_all :: "'w \<Rightarrow> exn option \<times> 'w"
  normals_make_consistent :: "'w \<Rightarrow> exn option \<times> 'w"
  shade_smooth :: "'w \<Rightarrow> exn option \<times> 'w"

type_synonym 'w st = "'w \<times> event list"

type_synonym ('w, 'a) py = "'w st \<Rightarrow> (exn + 'a) \<times> 'w st"

definition py_return :: "'a \<Rightarrow> ('w, 'a) py" where
  "py_return x s = (Inr x, s)"

definition py_raise :: "exn \<Rightarrow> ('w, 'a) py" where
  "py_raise e s = (Inl e, s)"

definition py_bind :: "('w, 'a) py \<Rightarrow> ('a \<Rightarrow> ('w, 'b) py) \<Rightarrow> ('w, 'b) py" where
  "py_bind m f s = (case m s of (Inl e, s') \<Rightarrow> (Inl e, s') | (Inr x, s') \<Rightarrow> f x s')"

definition py_then :: "('w, 'a) py \<Rightarrow> ('w, 'b) py \<Rightarrow> ('w, 'b) py" where
  "py_then m n = py_bind m (\<lambda>_. n)"

definition py_print :: "event \<Rightarrow> ('w, unit) py" where
  "py_print ev s = (Inr (), (fst s, snd s @ [ev]))"

definition py_read :: "('w \<Rightarrow> 'a) \<Rightarrow> ('w, 'a) py" where
  "py_read obs s = (Inr (obs (fst s)), s)"

definition py_call :: "('w \<Rightarrow> exn option \<times> 'w) \<Rightarrow> ('w, unit) py" where
  "py_call op s =
     (case op (fst s) of
        (None, w') \<Rightarrow> (Inr (), (w', snd s))
      | (Some e, w') \<Rightarrow> (Inl e, (w', snd s)))"

text \<open>\<^verbatim>\<open>try: m except Exception as e: h(e)\<close>\<close>

definition py_try :: "('w, 'a) py \<Rightarrow> (exn \<Rightarrow> ('w, 'a) py) \<Rightarrow> ('w, 'a) py" where
  "py_try m h s = (case m s of (Inl e, s') \<Rightarrow> h e s' | (Inr x, s') \<Rightarrow> (Inr x, s'))"

text \<open>\<^verbatim>\<open>try: m except (E1, E2): h\<close>: any other exception propagates.\<close>

definition py_try_only :: "exn list \<Rightarrow> ('w, 'a) py \<Rightarrow> ('w, 'a) py \<Rightarrow> ('w, 'a) py" where
  "py_try_only es m h s =
     (case m s of
        (Inl e, s') \<Rightarrow> if e \<in> set es then h s' else (Inl e, s')
      | (Inr x, s') \<Rightarrow> (Inr x, s'))"

text \<open>\<^verbatim>\<open>a / b\<close> on numbers: ZeroDivisionError when \<^verbatim>\<open>b\<close> is zero.\<close>

definition py_div :: "rat \<Rightarrow> rat \<Rightarrow> ('w, rat) py" where
  "py_div a b = (if b = 0 then py_raise ZeroDivisionError else py_return (a / b))"

text \<open>\<^verbatim>\<open>int(x)\<close> on a float truncates towards zero.\<close>

definition py_int :: "rat \<Rightarrow> int" where
  "py_int x = (if 0 \<le> x then \<lfloor>x\<rfloor> else \<lceil>x\<rceil>)"

definition faces :: "'w engine \<Rightarrow> 'w \<Rightarrow> nat" where
  "faces eng w = length (polygons eng w)"

section \<open>Mesh analysis\<close>

definition is_valid_obj :: "'w engine \<Rightarrow> ('w, bool) py" where
  "is_valid_obj eng =
     py_try_only [ReferenceError, AttributeError]
       (py_bind (\<lambda>s. (obj_name eng (fst s), s)) (\<lambda>_.
        py_bind (py_read (obj_type eng)) (\<lambda>t.
        py_bind (py_read (faces eng)) (\<lambda>n.
        py_return (t = ''MESH'' \<and> n > 0)))))
       (py_return False)"

text \<open>
  The \<^verbatim>\<open>bmesh\<close> copy that \<^verbatim>\<open>analyze_mesh_quality\<close> makes is read and freed without a change
  to the object; the average edge length it computes is only printed and is left out.
\<close>

definition analyze_mesh_quality :: "'w engine \<Rightarrow> ('w, string) py" where
  "analyze_mesh_quality eng =
     py_bind (is_valid_obj eng) (\<lambda>valid.
       if \<not> valid then py_return ''unknown''
       else
         py_bind (py_read (faces eng)) (\<lambda>face_count.
         py_bind (py_read (vertices eng)) (\<lambda>vert_count.
         py_bind (py_read (\<lambda>w. length (filter (\<lambda>n. n = 4) (polygons eng w)))) (\<lambda>quad_faces.
         let quad_ratio = (if face_count > 0 then of_nat quad_faces / of_nat face_count else 0);
             vert_face_ratio = (if face_count > 0 then of_nat vert_count / of_nat face_count else 0)
         in py_then (py_print (P_analysis face_count vert_count quad_ratio vert_face_ratio))
              (if quad_ratio > 7 / 10 then py_return ''structured''
               else if vert_face_ratio > 8 / 10 then py_return ''dense''
               else py_return ''organic'')))))"

section \<open>Decimation primitives\<close>

definition quadric_body :: "'w engine \<Rightarrow> rat \<Rightarrow> bool \<Rightarrow> ('w, bool) py" where
  "quadric_body eng target_reduction preserve_sharp =
     py_then (py_print (P_quadric target_reduction))
    (py_then (py_call (set_active eng))
    (py_then (py_call (mode_set eng ''OBJECT''))
    (py_then (py_call (modifiers_clear eng))
    (py_bind (py_read (faces eng)) (\<lambda>original_faces.
       if original_faces < 4
       then py_then (py_print (P_quadric_skip original_faces)) (py_return False)
       else
         py_then (py_call (modifiers_new eng ''QuadricDecimate''
                    (Decimate_collapse (max (1 / 10) (1 - target_reduction)) False
                       (if preserve_sharp then Some 15 else None))))
        (py_then (py_call (view_layer_update eng))
        (py_then (py_call (modifier_apply eng ''QuadricDecimate''))
        (py_bind (py_read (faces eng)) (\<lambda>new_faces.
           if new_faces < original_faces then py_return True
           else py_then (py_print P_quadric_unchanged) (py_return False))))))))))"

definition try_quadric_decimate :: "'w engine \<Rightarrow> rat \<Rightarrow> bool \<Rightarrow> ('w, bool) py" where
  "try_quadric_decimate eng target_reduction preserve_sharp =
     py_try (quadric_body eng target_reduction preserve_sharp)
       (\<lambda>e. py_then (py_print (P_quadric_failed e)) (py_return False))"

definition unsubdiv_body :: "'w engine \<Rightarrow> nat \<Rightarrow> ('w, bool) py" where
  "unsubdiv_body eng iterations =
     py_then (py_print (P_unsubdiv iterations))
    (py_then (py_call (set_active eng))
    (py_then (py_call (mode_set eng ''OBJECT''))
    (py_bind (py_read (faces eng)) (\<lambda>original_faces.
     py_then (py_call (modifiers_clear eng))
    (py_then (py_call (modifiers_new eng ''UnsubDiv'' (Decimate_unsubdiv iterations)))
    (py_then (py_call (view_layer_update eng))
    (py_then (py_call (modifier_apply eng ''UnsubDiv''))
    (py_bind (py_read (faces eng)) (\<lambda>new_faces.
     py_return (new_faces < original_faces))))))))))"

definition try_unsubdiv_decimate :: "'w engine \<Rightarrow> nat \<Rightarrow> ('w, bool) py" where
  "try_unsubdiv_decimate eng iterations =
     py_try (unsubdiv_body eng iterations)
       (\<lambda>e. py_then (py_print (P_unsubdiv_failed e)) (py_return False))"

definition planar_body :: "'w engine \<Rightarrow> nat \<Rightarrow> ('w, bool) py" where
  "planar_body eng angle_threshold =
     py_then (py_print (P_planar angle_threshold))
    (py_then (py_call (set_active eng))
    (py_then (py_call (mode_set eng ''OBJECT''))
    (py_bind (py_read (faces eng)) (\<lambda>original_faces.
     py_then (py_call (modifiers_clear eng))
    (py_then (py_call (modifiers_new eng ''PlanarDecimate''
                (Decimate_dissolve angle_threshold False)))
    (py_then (py_call (view_layer_update eng))
    (py_then (py_call (modifier_apply eng ''PlanarDecimate''))
    (py_bind (py_read (faces eng)) (\<lambda>new_faces.
     py_return (new_faces < original_faces))))))))))"

definition try_planar_decimate :: "'w engine \<Rightarrow> nat \<Rightarrow> ('w, bool) py" where
  "try_planar_decimate eng angle_threshold =
     py_try (planar_body eng angle_threshold)
       (\<lambda>e. py_then (py_print (P_planar_failed e)) (py_return False))"

definition subsurf_body :: "'w engine \<Rightarrow> rat \<Rightarrow> ('w, bool) py" where
  "subsurf_body eng target_reduction =
     py_then (py_print P_subsurf)
    (py_bind (py_read (faces eng)) (\<lambda>original_faces.
     py_then (py_call (modifiers_new eng ''SubSurf'' (Subsurf 1 1)))
    (py_then (py_call (modifier_apply eng ''SubSurf''))
    (py_bind (py_read (faces eng)) (\<lambda>subdivided_faces.
     py_then (py_print (P_subdivided subdivided_faces))
    (py_bind (py_div (of_nat original_faces * (1 - target_reduction)) (of_nat subdivided_faces))
       (\<lambda>q.
     let adjusted_reduction = max (1 / 10) (min (9 / 10) (1 - q))
     in py_then (py_print (P_adjusted adjusted_reduction))
          (try_quadric_decimate eng adjusted_reduction True))))))))"

definition apply_subdivision_surface_then_decimate :: "'w engine \<Rightarrow> rat \<Rightarrow> ('w, bool) py" where
  "apply_subdivision_surface_then_decimate eng target_reduction =
     py_try (subsurf_body eng target_reduction)
       (\<lambda>e. py_then (py_print (P_subsurf_failed e)) (py_return False))"

section \<open>Post-processing\<close>

text \<open>
  The handler of \<^verbatim>\<open>apply_smart_smooth\<close> calls \<^verbatim>\<open>mode_set\<close> again, outside any
  \<^verbatim>\<open>try\<close>: an exception there leaves the function.
\<close>

definition apply_smart_smooth :: "'w engine \<Rightarrow> ('w, bool) py" where
  "apply_smart_smooth eng =
     py_try
       (py_then (py_call (set_active eng))
       (py_then (py_call (mode_set eng ''EDIT''))
       (py_then (py_call (select_all eng))
       (py_then (py_call (normals_make_consistent eng))
       (py_then (py_call (mode_set eng ''OBJECT''))
       (py_then (py_call (shade_smooth eng))
       (py_then (py_call (modifiers_new eng ''EdgeSplit'' (Edge_split 30)))
       (py_then (py_call (modifier_apply eng ''EdgeSplit''))
       (py_return True)))))))))
       (\<lambda>e. py_then (py_print (P_smooth_failed e))
            (py_then (py_call (mode_set eng ''OBJECT''))
            (py_return False)))"

section \<open>Strategy catalogue and reduction controller\<close>

type_synonym 'w strategy = "string \<times> ('w, bool) py"

text \<open>Python's \<^verbatim>\<open>a() and b()\<close> on booleans: \<^verbatim>\<open>b\<close> is called only when \<^verbatim>\<open>a\<close> returned true.\<close>

definition py_and :: "('w, bool) py \<Rightarrow> ('w, bool) py \<Rightarrow> ('w, bool) py" where
  "py_and a b = py_bind a (\<lambda>x. if x then b else py_return False)"

definition strategies :: "'w engine \<Rightarrow> string \<Rightarrow> rat \<Rightarrow> 'w strategy list" where
  "strategies eng mesh_type target_reduction =
     (if mesh_type = ''structured'' then
        [(''Conservative Quadric'', try_quadric_decimate eng (target_reduction * (7 / 10)) True),
         (''Un-Subdivide'', try_unsubdiv_decimate eng 2),
         (''Standard Quadric'', try_quadric_decimate eng target_reduction True),
         (''Planar Dissolve'', try_planar_decimate eng 5)]
      else if mesh_type = ''dense'' then
        [(''SubSurf + Decimate'', apply_subdivision_surface_then_decimate eng target_reduction),
         (''Progressive Quadric'', try_quadric_decimate eng (target_reduction * (8 / 10)) True),
         (''Un-Subdivide'', try_unsubdiv_decimate eng 3),
         (''Aggressive Quadric'', try_quadric_decimate eng target_reduction False)]
      else
        [(''Quality Quadric'', try_quadric_decimate eng (target_reduction * (6 / 10)) True),
         (''SubSurf + Decimate'', apply_subdivision_surface_then_decimate eng target_reduction),
         (''Planar + Quadric'',
            py_and (try_planar_decimate eng 3)
                   (try_quadric_decimate eng (target_reduction * (5 / 10)) True)),
         (''Standard Quadric'', try_quadric_decimate eng target_reduction True)])"

text \<open>
  One pass through the body of the strategy loop. The result is the value of \<^verbatim>\<open>success\<close>
  after the pass and whether the pass ended in \<^verbatim>\<open>break\<close>.
\<close>

definition attempt ::
  "'w engine \<Rightarrow> int \<Rightarrow> nat \<Rightarrow> 'w strategy \<Rightarrow> bool \<Rightarrow> ('w, bool \<times> bool) py" where
  "attempt eng target_faces i strategy success =
     py_then (py_print (P_strategy i (fst strategy)))
    (py_bind (py_read (faces eng)) (\<lambda>faces_before.
     py_bind (snd strategy) (\<lambda>ok.
       if ok then
         py_bind (py_read (faces eng)) (\<lambda>faces_after.
         py_bind (py_div (of_nat faces_before - of_nat faces_after) (of_nat faces_before)) (\<lambda>q.
         py_then (py_print (P_result faces_after (q * 100)))
           (if of_nat faces_after < of_nat faces_before * (95 / 100 :: rat) then
              (if of_int target_faces * (7 / 10 :: rat) \<le> of_nat faces_after
                  \<and> of_nat faces_after \<le> of_int target_faces * (13 / 10 :: rat)
               then py_then (py_print P_near_target) (py_return (True, True))
               else py_return (True, False))
            else py_return (success, False))))
       else py_return (success, False))))"

fun run_strategies ::
  "'w engine \<Rightarrow> int \<Rightarrow> nat \<Rightarrow> 'w strategy list \<Rightarrow> bool \<Rightarrow> ('w, bool) py" where
  "run_strategies eng target_faces i [] success s = (Inr success, s)"
| "run_strategies eng target_faces i (strategy # rest) success s =
     (case attempt eng target_faces i strategy success s of
        (Inl e, s') \<Rightarrow> (Inl e, s')
      | (Inr (success', stop), s') \<Rightarrow>
          if stop then (Inr success', s')
          else run_strategies eng target_faces (i + 1) rest success' s')"

text \<open>What follows the loop: the conditional post-processing and the final statistics.\<close>

definition finish :: "'w engine \<Rightarrow> nat \<Rightarrow> bool \<Rightarrow> ('w, bool) py" where
  "finish eng original_faces success =
     py_then
       (if success
        then py_then (py_print P_postprocess)
               (py_bind (apply_smart_smooth eng) (\<lambda>_. py_return ()))
        else py_return ())
    (py_bind (py_read (faces eng)) (\<lambda>final_faces.
     py_bind (py_div (of_nat original_faces - of_nat final_faces) (of_nat original_faces)) (\<lambda>q.
     let final_reduction = q * 100
     in if final_faces < original_faces
        then py_then (py_print (P_reduced original_faces final_faces final_reduction))
               (py_return True)
        else py_then (py_print P_not_reduced) (py_return False))))"

text \<open>The line that closes a reduction, as a function of the original and the final count.\<close>

definition closing_line :: "nat \<Rightarrow> nat \<Rightarrow> event" where
  "closing_line original_faces final_faces =
     (if final_faces < original_faces
      then P_reduced original_faces final_faces
             ((of_nat original_faces - of_nat final_faces) / of_nat original_faces * 100)
      else P_not_reduced)"

definition intelligent_mesh_reduction :: "'w engine \<Rightarrow> rat \<Rightarrow> ('w, bool) py" where
  "intelligent_mesh_reduction eng target_reduction =
     py_bind (is_valid_obj eng) (\<lambda>valid.
       if \<not> valid then py_then (py_print P_invalid_object) (py_return False)
       else
         py_bind (py_read (faces eng)) (\<lambda>original_faces.
         py_then (py_print (P_begin original_faces))
           (if original_faces < 100
            then py_then (py_print P_too_few_faces) (py_return True)
            else
              py_bind (analyze_mesh_quality eng) (\<lambda>mesh_type.
              let target_faces = py_int (of_nat original_faces * (1 - target_reduction))
              in py_then (py_print (P_mesh_type
                            (if mesh_type = ''structured'' then ''structured''
                             else if mesh_type = ''dense'' then ''dense'' else ''organic'')))
                (py_bind (run_strategies eng target_faces 1
                            (strategies eng mesh_type target_reduction) False) (\<lambda>success.
                 finish eng original_faces success))))))"

text \<open>
  The attempts a run of the loop makes, in order: for each pass the face count before the
  strategy is called, what the strategy returned, and the face count after it. The loop
  itself keeps none of this; the trace follows the recursion of \<open>run_strategies\<close> and is
  used to state properties of whole runs.
\<close>

definition attempt_record ::
  "'w engine \<Rightarrow> nat \<Rightarrow> 'w strategy \<Rightarrow> 'w st \<Rightarrow> (nat \<times> bool \<times> nat) option" where
  "attempt_record eng i strategy s =
     (case snd strategy (fst s, snd s @ [P_strategy i (fst strategy)]) of
        (Inl e, s2) \<Rightarrow> None
      | (Inr ok, s2) \<Rightarrow> Some (faces eng (fst s), ok, faces eng (fst s2)))"

fun attempt_trace ::
  "'w engine \<Rightarrow> int \<Rightarrow> nat \<Rightarrow> 'w strategy list \<Rightarrow> bool \<Rightarrow> 'w st \<Rightarrow> (nat \<times> bool \<times> nat) list"
  where
  "attempt_trace eng target_faces i [] success s = []"
| "attempt_trace eng target_faces i (strategy # rest) success s =
     (case attempt_record eng i strategy s of
        None \<Rightarrow> []
      | Some r \<Rightarrow>
          r # (case attempt eng target_faces i strategy success s of
                 (Inl e, s') \<Rightarrow> []
               | (Inr (success', stop), s') \<Rightarrow>
                   if stop then []
                   else attempt_trace eng target_faces (i + 1) rest success' s'))"

definition effective :: "nat \<times> bool \<times> nat \<Rightarrow> bool" where
  "effective r =
     (case r of (faces_before, ok, faces_after) \<Rightarrow>
        ok \<and> of_nat faces_after < of_nat faces_before * (95 / 100 :: rat))"

definition near_target :: "int \<Rightarrow> nat \<Rightarrow> bool" where
  "near_target target_faces faces_after =
     (of_int target_faces * (7 / 10 :: rat) \<le> of_nat faces_after
      \<and> of_nat faces_after \<le> of_int target_faces * (13 / 10 :: rat))"

section \<open>Command line and batch driver\<close>








section \<open>The specification's words\<close>

text \<open>
  Mesh metrics and the classification rule as the specification states them: the quad ratio
  is quad faces over all faces, the vertex-face ratio is vertices over faces, both 0 for a
  mesh without faces; the rules are tried in order and the first match wins.
\<close>

definition quadRatio :: "'w engine \<Rightarrow> 'w \<Rightarrow> rat" where
  "quadRatio eng w =
     (if faces eng w = 0 then 0
      else of_nat (length (filter (\<lambda>n. n = 4) (polygons eng w))) / of_nat (faces eng w))"

definition vertexFaceRatio :: "'w engine \<Rightarrow> 'w \<Rightarrow> rat" where
  "vertexFaceRatio eng w =
     (if faces eng w = 0 then 0 else of_nat (vertices eng w) / of_nat (faces eng w))"

definition classify :: "rat \<Rightarrow> rat \<Rightarrow> string" where
  "classify quad_ratio vertex_face_ratio =
     (if quad_ratio > 7 / 10 then ''structured''
      else if vertex_face_ratio > 8 / 10 then ''dense''
      else ''organic'')"

text \<open>
  The strategy catalogue of the specification. \<open>Both a b\<close> is the composite as the
  specification words it: both parts run, and the strategy succeeds when both succeed.
  \<open>AndThen a b\<close> is the composite of the script: the second part runs only after the first
  has succeeded.
\<close>

datatype strategy_spec =
    Collapse rat bool
  | UnSubdivide nat
  | PlanarDissolve nat
  | SubSurfCollapse rat
  | Both strategy_spec strategy_spec
  | AndThen strategy_spec strategy_spec

fun run_spec :: "'w engine \<Rightarrow> strategy_spec \<Rightarrow> ('w, bool) py" where
  "run_spec eng (Collapse r sharp) = try_quadric_decimate eng r sharp"
| "run_spec eng (UnSubdivide n) = try_unsubdiv_decimate eng n"
| "run_spec eng (PlanarDissolve a) = try_planar_decimate eng a"
| "run_spec eng (SubSurfCollapse r) = apply_subdivision_surface_then_decimate eng r"
| "run_spec eng (Both a b) =
     py_bind (run_spec eng a) (\<lambda>x. py_bind (run_spec eng b) (\<lambda>y. py_return (x \<and> y)))"
| "run_spec eng (AndThen a b) =
     py_bind (run_spec eng a) (\<lambda>x. if x then run_spec eng b else py_return False)"

definition catalog_spec :: "strategy_spec \<Rightarrow> string \<Rightarrow> rat \<Rightarrow> strategy_spec list" where
  "catalog_spec composite category target =
     (if category = ''structured'' then
        [Collapse (7 / 10 * target) True, UnSubdivide 2, Collapse target True, PlanarDissolve 5]
      else if category = ''dense'' then
        [SubSurfCollapse target, Collapse (8 / 10 * target) True, UnSubdivide 3,
         Collapse target False]
      else
        [Collapse (6 / 10 * target) True, SubSurfCollapse target, composite,
         Collapse target True])"

text \<open>
  Names for what \<open>intelligent_mesh_reduction\<close> hands to the loop on a valid mesh of at
  least 100 faces: the state after its opening lines, the target face count and the list of
  strategies. They only shorten the statements below.
\<close>

abbreviation loop_start :: "'w engine \<Rightarrow> 'w \<Rightarrow> event list \<Rightarrow> 'w st" where
  "loop_start eng w out \<equiv>
     (w, out @ [P_begin (faces eng w),
                P_analysis (faces eng w) (vertices eng w)
                  (quadRatio eng w) (vertexFaceRatio eng w),
                P_mesh_type (classify (quadRatio eng w) (vertexFaceRatio eng w))])"

abbreviation loop_target :: "'w engine \<Rightarrow> 'w \<Rightarrow> rat \<Rightarrow> int" where
  "loop_target eng w target_reduction \<equiv>
     py_int (of_nat (faces eng w) * (1 - target_reduction))"

abbreviation loop_strategies :: "'w engine \<Rightarrow> 'w \<Rightarrow> rat \<Rightarrow> 'w strategy list" where
  "loop_strategies eng w target_reduction \<equiv>
     strategies eng (classify (quadRatio eng w) (vertexFaceRatio eng w)) target_reduction"

section \<open>A small engine for examples\<close>

text \<open>
  A mesh is its list of polygons, its vertex count and its modifier stack. Applying a
  modifier removes as many faces as the script \<open>k\<close> says for it, or raises RuntimeError when
  the script says \<open>None\<close>; an applied modifier leaves the stack, a failed one stays.
\<close>

record toy_world =
  tw_type :: string
  tw_polys :: "nat list"
  tw_verts :: nat
  tw_mods :: "(string \<times> modifier) list"

definition toy_apply :: "(modifier \<Rightarrow> nat option) \<Rightarrow> string \<Rightarrow> toy_world \<Rightarrow> exn option \<times> toy_world"
  where
  "toy_apply k name w =
     (case map_of (tw_mods w) name of
        None \<Rightarrow> (Some RuntimeError, w)
      | Some m \<Rightarrow>
          (case k m of
             None \<Rightarrow> (Some RuntimeError, w)
           | Some d \<Rightarrow>
               (None, w\<lparr>tw_polys := drop d (tw_polys w),
                        tw_mods := filter (\<lambda>p. fst p \<noteq> name) (tw_mods w)\<rparr>)))"

definition toy_engine :: "(modifier \<Rightarrow> nat option) \<Rightarrow> toy_world engine" where
  "toy_engine k =
     \<lparr>obj_name = (\<lambda>w. Inr ''Mesh''),
      obj_type = tw_type,
      polygons = tw_polys,
      vertices = tw_verts,
      set_active = (\<lambda>w. (None, w)),
      mode_set = (\<lambda>m w. (None, w)),
      modifiers_clear = (\<lambda>w. (None, w\<lparr>tw_mods := []\<rparr>)),
      modifiers_new = (\<lambda>name m w. (None, w\<lparr>tw_mods := tw_mods w @ [(name, m)]\<rparr>)),
      view_layer_update = (\<lambda>w. (None, w)),
      modifier_apply = toy_apply k,
      select_all = (\<lambda>w. (None, w)),
      normals_make_consistent = (\<lambda>w. (None, w)),
      shade_smooth = (\<lambda>w. (None, w))\<rparr>"

text \<open>Every modifier fails.\<close>

definition k_fail :: "modifier \<Rightarrow> nat option" where
  "k_fail m = None"

text \<open>Every decimation removes \<open>d\<close> faces, the edge split keeps them, subdivision fails.\<close>

fun k_trim :: "nat \<Rightarrow> modifier \<Rightarrow> nat option" where
  "k_trim d (Subsurf l r) = None"
| "k_trim d (Edge_split a) = Some 0"
| "k_trim d m = Some d"

text \<open>Only the planar dissolve works, and removes \<open>d\<close> faces.\<close>

fun k_planar :: "nat \<Rightarrow> modifier \<Rightarrow> nat option" where
  "k_planar d (Decimate_dissolve a b) = Some d"
| "k_planar d m = None"

definition quad_mesh :: "nat \<Rightarrow> toy_world" where
  "quad_mesh n = \<lparr>tw_type = ''MESH'', tw_polys = replicate n 4, tw_verts = n + 2, tw_mods = []\<rparr>"

definition tri_mesh :: "nat \<Rightarrow> toy_world" where
  "tri_mesh n =
     \<lparr>tw_type = ''MESH'', tw_polys = replicate n 3, tw_verts = n div 2 + 2, tw_mods = []\<rparr>"




section \<open>Laws of a mesh engine\<close>

text \<open>
  Two properties of Blender that some results below assume of the engine. Selecting the
  object, switching the mode, clearing or extending the modifier stack and updating the view
  layer do not change the polygons of the mesh; only applying a modifier does. Applying a
  modifier to a mesh without faces gives a mesh without faces.
\<close>

definition bookkeeping_keeps_faces :: "'w engine \<Rightarrow> bool" where
  "bookkeeping_keeps_faces eng =
     (\<forall>w. faces eng (snd (set_active eng w)) = faces eng w
        \<and> (\<forall>m. faces eng (snd (mode_set eng m w)) = faces eng w)
        \<and> faces eng (snd (modifiers_clear eng w)) = faces eng w
        \<and> (\<forall>name m. faces eng (snd (modifiers_new eng name m w)) = faces eng w)
        \<and> faces eng (snd (view_layer_update eng w)) = faces eng w)"

definition no_faces_from_none :: "'w engine \<Rightarrow> bool" where
  "no_faces_from_none eng =
     (\<forall>name w. faces eng w = 0 \<longrightarrow> faces eng (snd (modifier_apply eng name w)) = 0)"

section \<open>Basic facts\<close>

lemmas py_defs = py_return_def py_raise_def py_bind_def py_then_def py_print_def py_read_def
  py_call_def py_try_def py_try_only_def py_div_def

lemma is_valid_obj_named:
  "obj_name eng w = Inr nm \<Longrightarrow>
   is_valid_obj eng (w, out) = (Inr (obj_type eng w = ''MESH'' \<and> 0 < faces eng w), (w, out))"
  by (simp add: is_valid_obj_def py_defs)

lemma is_valid_obj_dangling:
  "obj_name eng w = Inl e \<Longrightarrow> e = ReferenceError \<or> e = AttributeError \<Longrightarrow>
   is_valid_obj eng (w, out) = (Inr False, (w, out))"
  by (auto simp add: is_valid_obj_def py_defs)

section \<open>Classification\<close>

text \<open>
  C2. For a valid mesh (a live object of type MESH with at least one polygon)
  \<open>analyze_mesh_quality\<close> returns the category that the specification's rule gives for
  the quad ratio and the vertex-face ratio of the mesh, first match winning: more than 0.7
  quads is structured, otherwise more than 0.8 vertices per face is dense, otherwise organic.
  The category depends on the mesh through these two ratios only. For an object that is not
  a mesh, has no polygon, or whose reference is dead, it returns unknown. The mesh is left
  as it was.
\<close>

theorem analyze_classifies:
  "(obj_name eng w = Inr nm \<and> obj_type eng w = ''MESH'' \<and> 0 < faces eng w \<longrightarrow>
      analyze_mesh_quality eng (w, out) =
        (Inr (classify (quadRatio eng w) (vertexFaceRatio eng w)),
         (w, out @ [P_analysis (faces eng w) (vertices eng w)
                      (quadRatio eng w) (vertexFaceRatio eng w)])))
   \<and> (obj_name eng w = Inr nm \<and> (obj_type eng w \<noteq> ''MESH'' \<or> faces eng w = 0) \<longrightarrow>
      analyze_mesh_quality eng (w, out) = (Inr ''unknown'', (w, out)))
   \<and> (obj_name eng w = Inl ReferenceError \<or> obj_name eng w = Inl AttributeError \<longrightarrow>
      analyze_mesh_quality eng (w, out) = (Inr ''unknown'', (w, out)))"
proof (intro conjI impI)
  assume a: "obj_name eng w = Inr nm \<and> obj_type eng w = ''MESH'' \<and> 0 < faces eng w"
  then have v: "is_valid_obj eng (w, out) = (Inr True, (w, out))"
    by (simp add: is_valid_obj_named)
  from a show "analyze_mesh_quality eng (w, out) =
        (Inr (classify (quadRatio eng w) (vertexFaceRatio eng w)),
         (w, out @ [P_analysis (faces eng w) (vertices eng w)
                      (quadRatio eng w) (vertexFaceRatio eng w)]))"
    unfolding analyze_mesh_quality_def
    by (simp add: py_bind_def v py_then_def py_read_def py_print_def py_return_def Let_def
        classify_def quadRatio_def vertexFaceRatio_def)
next
  assume a: "obj_name eng w = Inr nm \<and> (obj_type eng w \<noteq> ''MESH'' \<or> faces eng w = 0)"
  then have v: "is_valid_obj eng (w, out) = (Inr False, (w, out))"
    by (auto simp add: is_valid_obj_named)
  show "analyze_mesh_quality eng (w, out) = (Inr ''unknown'', (w, out))"
    unfolding analyze_mesh_quality_def by (simp add: py_bind_def v py_return_def)
next
  assume a: "obj_name eng w = Inl ReferenceError \<or> obj_name eng w = Inl AttributeError"
  then have v: "is_valid_obj eng (w, out) = (Inr False, (w, out))"
    by (auto simp add: is_valid_obj_dangling)
  show "analyze_mesh_quality eng (w, out) = (Inr ''unknown'', (w, out))"
    unfolding analyze_mesh_quality_def by (simp add: py_bind_def v py_return_def)
qed

lemma toy_simps:
  "obj_name (toy_engine k) w = Inr ''Mesh''"
  "obj_type (toy_engine k) w = tw_type w"
  "polygons (toy_engine k) w = tw_polys w"
  "vertices (toy_engine k) w = tw_verts w"
  "faces (toy_engine k) w = length (tw_polys w)"
  "set_active (toy_engine k) w = (None, w)"
  "mode_set (toy_engine k) m w = (None, w)"
  "modifiers_clear (toy_engine k) w = (None, w\<lparr>tw_mods := []\<rparr>)"
  "modifiers_new (toy_engine k) name md w = (None, w\<lparr>tw_mods := tw_mods w @ [(name, md)]\<rparr>)"
  "view_layer_update (toy_engine k) w = (None, w)"
  "modifier_apply (toy_engine k) = toy_apply k"
  "select_all (toy_engine k) w = (None, w)"
  "normals_make_consistent (toy_engine k) w = (None, w)"
  "shade_smooth (toy_engine k) w = (None, w)"
  by (simp_all add: toy_engine_def faces_def)

theorem analyze_classifies_witness:
  "analyze_mesh_quality (toy_engine k_fail) (quad_mesh 100, []) =
     (Inr ''structured'', (quad_mesh 100, [P_analysis 100 102 1 (51 / 50)]))
   \<and> analyze_mesh_quality (toy_engine k_fail) (tri_mesh 0, []) = (Inr ''unknown'', (tri_mesh 0, []))
   \<and> analyze_mesh_quality ((toy_engine k_fail)\<lparr>obj_name := (\<lambda>w. Inl ReferenceError)\<rparr>)
       (quad_mesh 100, []) = (Inr ''unknown'', (quad_mesh 100, []))"
  using analyze_classifies [of "toy_engine k_fail" "quad_mesh 100" "''Mesh''" "[]"]
    analyze_classifies [of "toy_engine k_fail" "tri_mesh 0" "''Mesh''" "[]"]
    analyze_classifies [of "(toy_engine k_fail)\<lparr>obj_name := (\<lambda>w. Inl ReferenceError)\<rparr>"
      "quad_mesh 100" "''Mesh''" "[]"]
  by (simp add: toy_simps quad_mesh_def tri_mesh_def classify_def quadRatio_def vertexFaceRatio_def)

section \<open>Small meshes\<close>

text \<open>
  C4. For every valid mesh with fewer than 100 faces, \<open>intelligent_mesh_reduction\<close> returns
  true and leaves the mesh as it found it, so the final face count is the original one. It
  prints its opening line and the line that says the mesh is skipped and nothing else: no
  strategy is announced and no primitive starts.
\<close>

theorem small_mesh_untouched:
  assumes "obj_name eng w = Inr nm" and "obj_type eng w = ''MESH''"
    and "0 < faces eng w" and "faces eng w < 100"
  shows "intelligent_mesh_reduction eng target_reduction (w, out) =
           (Inr True, (w, out @ [P_begin (faces eng w), P_too_few_faces]))"
  using assms unfolding intelligent_mesh_reduction_def
  by (simp add: py_bind_def is_valid_obj_named py_then_def py_read_def py_print_def py_return_def)

theorem small_mesh_untouched_witness:
  "intelligent_mesh_reduction (toy_engine (k_trim 5)) (1 / 2) (quad_mesh 99, []) =
     (Inr True, (quad_mesh 99, [P_begin 99, P_too_few_faces]))"
  using small_mesh_untouched [of "toy_engine (k_trim 5)" "quad_mesh 99" "''Mesh''" "1 / 2" "[]"]
  by (simp add: toy_simps quad_mesh_def)

section \<open>The strategy loop\<close>

lemma attempt_eq:
  "attempt eng target_faces i strategy success s =
     (case snd strategy (fst s, snd s @ [P_strategy i (fst strategy)]) of
        (Inl e, s2) \<Rightarrow> (Inl e, s2)
      | (Inr ok, s2) \<Rightarrow>
          if \<not> ok then (Inr (success, False), s2)
          else if faces eng (fst s) = 0 then (Inl ZeroDivisionError, s2)
          else
            let fb = faces eng (fst s); fa = faces eng (fst s2);
                out3 = snd s2 @ [P_result fa ((of_nat fb - of_nat fa) / of_nat fb * 100)]
            in if of_nat fa < of_nat fb * (95 / 100 :: rat)
               then if of_int target_faces * (7 / 10 :: rat) \<le> of_nat fa
                       \<and> of_nat fa \<le> of_int target_faces * (13 / 10 :: rat)
                    then (Inr (True, True), (fst s2, out3 @ [P_near_target]))
                    else (Inr (True, False), (fst s2, out3))
               else (Inr (success, False), (fst s2, out3)))"
proof -
  obtain x s2 where st: "snd strategy (fst s, snd s @ [P_strategy i (fst strategy)]) = (x, s2)"
    by (cases "snd strategy (fst s, snd s @ [P_strategy i (fst strategy)])")
  show ?thesis
  proof (cases x)
    case (Inl e)
    with st show ?thesis
      unfolding attempt_def py_then_def py_bind_def py_print_def py_read_def by simp
  next
    case (Inr ok)
    with st show ?thesis
      unfolding attempt_def py_then_def py_bind_def py_print_def py_read_def py_div_def
        py_raise_def py_return_def Let_def
      by simp
  qed
qed

lemma effective_positive: "effective (fb, ok, fa) \<Longrightarrow> 0 < fb"
  by (cases "fb = 0") (simp_all add: effective_def)

lemmas prim_defs = try_quadric_decimate_def quadric_body_def try_unsubdiv_decimate_def
  unsubdiv_body_def try_planar_decimate_def planar_body_def
  apply_subdivision_surface_then_decimate_def subsurf_body_def py_and_def

lemma trace_Cons:
  "attempt_trace eng target_faces i (strategy # rest) success s = r # others \<Longrightarrow>
   attempt_record eng i strategy s = Some r"
  by (cases "attempt_record eng i strategy s") simp_all

lemma attempt_stops:
  assumes "attempt_record eng i strategy s = Some r" and "effective r"
    and "near_target target_faces (snd (snd r))"
  shows "\<exists>s'. attempt eng target_faces i strategy success s = (Inr (True, True), s')"
proof -
  obtain x s2 where st: "snd strategy (fst s, snd s @ [P_strategy i (fst strategy)]) = (x, s2)"
    by (cases "snd strategy (fst s, snd s @ [P_strategy i (fst strategy)])")
  with assms(1) obtain ok where x: "x = Inr ok"
    and r: "r = (faces eng (fst s), ok, faces eng (fst s2))"
    by (cases x) (auto simp add: attempt_record_def)
  from assms(2) r have ok: ok and lt: "of_nat (faces eng (fst s2)) < of_nat (faces eng (fst s)) * (95 / 100 :: rat)"
    by (simp_all add: effective_def)
  from lt have pos: "faces eng (fst s) \<noteq> 0" by (cases "faces eng (fst s) = 0") simp_all
  from assms(3) r have near: "of_int target_faces * (7 / 10 :: rat) \<le> of_nat (faces eng (fst s2))
      \<and> of_nat (faces eng (fst s2)) \<le> of_int target_faces * (13 / 10 :: rat)"
    by (simp add: near_target_def)
  show ?thesis
    unfolding attempt_eq st x Let_def using ok pos lt near by simp
qed

text \<open>
  C6, as the code has it. An attempt sets the run-level flag exactly when its strategy
  returned true and the face count after it is below 0.95 times the count before it;
  otherwise the flag keeps its value. A run that returns ends with the flag set exactly
  when it started set or one of its attempts was effective in this sense.
\<close>

theorem sticky_flag:
  "(attempt_record eng i strategy s = Some r \<and>
    attempt eng target_faces i strategy success s = (Inr (success', stop), s')
      \<longrightarrow> success' = (success \<or> effective r))
   \<and> (run_strategies eng target_faces i strats success s = (Inr result, s'')
      \<longrightarrow> result = (success \<or> list_ex effective (attempt_trace eng target_faces i strats success s)))"
proof (intro conjI impI)
  assume "attempt_record eng i strategy s = Some r \<and>
    attempt eng target_faces i strategy success s = (Inr (success', stop), s')"
  then show "success' = (success \<or> effective r)"
    by (auto simp add: attempt_eq attempt_record_def Let_def effective_def
        split: prod.splits sum.splits if_splits)
next
  assume "run_strategies eng target_faces i strats success s = (Inr result, s'')"
  then show "result = (success \<or> list_ex effective (attempt_trace eng target_faces i strats success s))"
  proof (induction strats arbitrary: i success s)
    case Nil
    then show ?case by simp
  next
    case (Cons strategy rest)
    obtain x s2 where st: "snd strategy (fst s, snd s @ [P_strategy i (fst strategy)]) = (x, s2)"
      by (cases "snd strategy (fst s, snd s @ [P_strategy i (fst strategy)])")
    show ?case
    proof (cases x)
      case (Inl e)
      with Cons.prems st show ?thesis by (simp add: attempt_eq)
    next
      case (Inr ok)
      then have rec: "attempt_record eng i strategy s = Some (faces eng (fst s), ok, faces eng (fst s2))"
        using st by (simp add: attempt_record_def)
      obtain y s3 where at: "attempt eng target_faces i strategy success s = (y, s3)"
        by (cases "attempt eng target_faces i strategy success s")
      show ?thesis
      proof (cases y)
        case (Inl e)
        with Cons.prems at show ?thesis by simp
      next
        case yr: (Inr p)
        obtain success' stop where p: "p = (success', stop)" by (cases p)
        have one: "success' = (success \<or> effective (faces eng (fst s), ok, faces eng (fst s2)))"
          using at yr p st Inr
          by (auto simp add: attempt_eq Let_def effective_def split: if_splits)
        show ?thesis
        proof (cases stop)
          case True
          then have "success' = True"
            using at yr p st Inr by (auto simp add: attempt_eq Let_def split: if_splits)
          with True Cons.prems at yr p rec one show ?thesis by auto
        next
          case False
          with Cons.prems at yr p
          have "run_strategies eng target_faces (i + 1) rest success' s3 = (Inr result, s'')"
            by simp
          from Cons.IH [OF this] False at yr p rec one show ?thesis by auto
        qed
      qed
    qed
  qed
qed


theorem sticky_flag_witness:
  "attempt_record (toy_engine (k_trim 40)) 1
     (''Conservative Quadric'', try_quadric_decimate (toy_engine (k_trim 40)) (7 / 20) True)
     (quad_mesh 100, []) = Some (100, True, 60)
   \<and> effective (100, True, 60)
   \<and> fst (attempt (toy_engine (k_trim 40)) 50 1
       (''Conservative Quadric'', try_quadric_decimate (toy_engine (k_trim 40)) (7 / 20) True)
       False (quad_mesh 100, [])) = Inr (True, True)
   \<and> fst (run_strategies (toy_engine (k_trim 40)) 50 1
       (strategies (toy_engine (k_trim 40)) ''structured'' (1 / 2)) False (quad_mesh 100, [])) =
       Inr True"
  using sticky_flag [of "toy_engine (k_trim 40)" 1
      "(''Conservative Quadric'', try_quadric_decimate (toy_engine (k_trim 40)) (7 / 20) True)"
      "(quad_mesh 100, [])" "(100, True, 60)" 50 False True True
      "snd (attempt (toy_engine (k_trim 40)) 50 1
       (''Conservative Quadric'', try_quadric_decimate (toy_engine (k_trim 40)) (7 / 20) True)
       False (quad_mesh 100, []))"
      "strategies (toy_engine (k_trim 40)) ''structured'' (1 / 2)" True
      "snd (run_strategies (toy_engine (k_trim 40)) 50 1
       (strategies (toy_engine (k_trim 40)) ''structured'' (1 / 2)) False (quad_mesh 100, []))"]
  by (simp add: strategies_def attempt_record_def attempt_eq prim_defs py_defs toy_simps
      toy_apply_def quad_mesh_def Let_def effective_def)

text \<open>
  C6 as stated fails: on an organic mesh of 100 faces where only the planar dissolve works,
  the composite third strategy dissolves down to 90 faces, below 0.95 times 100, and then
  returns false because its collapse step fails. The flag is not set by any attempt of the
  run.
\<close>

theorem sticky_flag_counterexample:
  "attempt_trace (toy_engine (k_planar 10)) 50 1
     (strategies (toy_engine (k_planar 10)) ''organic'' (1 / 2)) False (tri_mesh 100, []) =
     [(100, False, 100), (100, False, 100), (100, False, 90), (90, False, 90)]
   \<and> (of_nat 90 :: rat) < of_nat 100 * (95 / 100)
   \<and> fst (run_strategies (toy_engine (k_planar 10)) 50 1
       (strategies (toy_engine (k_planar 10)) ''organic'' (1 / 2)) False (tri_mesh 100, [])) =
       Inr False"
  by (simp add: strategies_def attempt_record_def attempt_eq prim_defs py_defs toy_simps
      toy_apply_def tri_mesh_def Let_def)

section \<open>The outcome of a reduction\<close>

lemma finish_eq:
  "finish eng original_faces success s =
     (case (if success
            then py_then (py_print P_postprocess)
                   (py_bind (apply_smart_smooth eng) (\<lambda>_. py_return ()))
            else py_return ()) s of
        (Inl e, s1) \<Rightarrow> (Inl e, s1)
      | (Inr u, s1) \<Rightarrow>
          if original_faces = 0 then (Inl ZeroDivisionError, s1)
          else if faces eng (fst s1) < original_faces
          then (Inr True,
                (fst s1, snd s1 @ [P_reduced original_faces (faces eng (fst s1))
                   ((of_nat original_faces - of_nat (faces eng (fst s1)))
                      / of_nat original_faces * 100)]))
          else (Inr False, (fst s1, snd s1 @ [P_not_reduced])))"
  unfolding finish_def
  by (simp add: py_then_def py_bind_def py_read_def py_div_def py_raise_def py_return_def
      py_print_def Let_def split: prod.splits sum.splits)

lemma finish_result:
  assumes "finish eng original_faces success s = (Inr b, s')"
  shows "b = (faces eng (fst s') < original_faces)"
    and "b \<Longrightarrow> last (snd s') = P_reduced original_faces (faces eng (fst s'))
            ((of_nat original_faces - of_nat (faces eng (fst s'))) / of_nat original_faces * 100)"
    and "\<not> b \<Longrightarrow> last (snd s') = P_not_reduced"
  using assms
  by (auto simp add: finish_eq split: prod.splits sum.splits if_splits)

lemma reduce_eq:
  assumes "obj_name eng w = Inr nm" and "obj_type eng w = ''MESH''" and "100 \<le> faces eng w"
  shows "intelligent_mesh_reduction eng target_reduction (w, out) =
     (let mesh_type = classify (quadRatio eng w) (vertexFaceRatio eng w);
          s0 = (w, out @ [P_begin (faces eng w),
                          P_analysis (faces eng w) (vertices eng w)
                            (quadRatio eng w) (vertexFaceRatio eng w),
                          P_mesh_type mesh_type])
      in case run_strategies eng (py_int (of_nat (faces eng w) * (1 - target_reduction))) 1
                (strategies eng mesh_type target_reduction) False s0 of
           (Inl e, s1) \<Rightarrow> (Inl e, s1)
         | (Inr success, s1) \<Rightarrow> finish eng (faces eng w) success s1)"
proof -
  have v: "is_valid_obj eng (w, out) = (Inr True, (w, out))"
    using assms by (simp add: is_valid_obj_named)
  have a: "analyze_mesh_quality eng (w, out @ [P_begin (faces eng w)]) =
        (Inr (classify (quadRatio eng w) (vertexFaceRatio eng w)),
         (w, (out @ [P_begin (faces eng w)]) @ [P_analysis (faces eng w) (vertices eng w)
                      (quadRatio eng w) (vertexFaceRatio eng w)]))"
    using assms
    by (simp add: analyze_mesh_quality_def py_bind_def is_valid_obj_named py_then_def py_read_def
        py_print_def py_return_def Let_def classify_def quadRatio_def vertexFaceRatio_def)
  have c: "(if classify q v = ''structured'' then ''structured''
            else if classify q v = ''dense'' then ''dense'' else ''organic'') = classify q v"
    for q v by (simp add: classify_def)
  show ?thesis
    using assms(3)
    unfolding intelligent_mesh_reduction_def
    by (simp add: py_bind_def v a c py_then_def py_read_def py_print_def Let_def
        split: prod.splits sum.splits)
qed

lemma reduce_trim40:
  "intelligent_mesh_reduction (toy_engine (k_trim 40)) (1 / 2) (quad_mesh 100, []) =
     (Inr True, ((quad_mesh 100)\<lparr>tw_polys := replicate 60 4\<rparr>,
        [P_begin 100, P_analysis 100 102 1 (51 / 50), P_mesh_type ''structured'',
         P_strategy 1 ''Conservative Quadric'', P_quadric (7 / 20), P_result 60 40,
         P_near_target, P_postprocess, P_reduced 100 60 40]))"
  apply (subst reduce_eq [of _ _ "''Mesh''"])
     apply (simp_all add: toy_simps quad_mesh_def)
  apply (simp add: classify_def quadRatio_def vertexFaceRatio_def toy_simps py_int_def Let_def
      strategies_def attempt_eq prim_defs py_defs toy_apply_def finish_eq apply_smart_smooth_def
      quad_mesh_def)
  done

section \<open>Errors inside the primitives\<close>

lemma py_try_print_eq:
  "py_try m (\<lambda>e. py_then (py_print (ev e)) (py_return False)) s =
     (case m s of
        (Inl e, s1) \<Rightarrow> (Inr False, (fst s1, snd s1 @ [ev e]))
      | (Inr x, s1) \<Rightarrow> (Inr x, s1))"
  by (simp add: py_defs split: prod.splits sum.splits)

lemma quadric_total: "\<not> isl (fst (try_quadric_decimate eng r sharp s))"
  unfolding try_quadric_decimate_def py_try_print_eq
  by (simp split: prod.splits sum.splits)

lemma unsubdiv_total: "\<not> isl (fst (try_unsubdiv_decimate eng n s))"
  unfolding try_unsubdiv_decimate_def py_try_print_eq
  by (simp split: prod.splits sum.splits)

lemma planar_total: "\<not> isl (fst (try_planar_decimate eng a s))"
  unfolding try_planar_decimate_def py_try_print_eq
  by (simp split: prod.splits sum.splits)

lemma subsurf_total: "\<not> isl (fst (apply_subdivision_surface_then_decimate eng r s))"
  unfolding apply_subdivision_surface_then_decimate_def py_try_print_eq
  by (simp split: prod.splits sum.splits)

lemma py_and_total:
  assumes "\<And>s. \<not> isl (fst (a s))" and "\<And>s. \<not> isl (fst (c s))"
  shows "\<not> isl (fst (py_and a c s))"
proof -
  obtain r s1 where a: "a s = (r, s1)" by (cases "a s")
  with assms(1) [of s] obtain x where r: "r = Inr x" by (cases r) simp_all
  show ?thesis
    using assms(2) [of s1] by (simp add: py_and_def py_bind_def py_return_def a r)
qed

lemma catalog_total:
  assumes "strategy \<in> set (strategies eng mesh_type target_reduction)"
  shows "\<not> isl (fst (snd strategy s))"
proof -
  note tot = quadric_total unsubdiv_total planar_total subsurf_total
    py_and_total [OF planar_total quadric_total]
  from assms show ?thesis
    by (auto simp add: strategies_def tot split: if_splits)
qed

lemma not_isl_Inr: "\<not> isl (fst x) \<Longrightarrow> \<exists>b s'. x = (Inr b, s')"
  by (cases x; cases "fst x") auto

lemma attempt_error:
  assumes "\<not> isl (fst (snd strategy (fst s, snd s @ [P_strategy i (fst strategy)])))"
    and "attempt eng target_faces i strategy success s = (Inl e, s')"
  shows "e = ZeroDivisionError \<and> faces eng (fst s) = 0
         \<and> fst (snd strategy (fst s, snd s @ [P_strategy i (fst strategy)])) = Inr True"
  using assms
  by (auto simp add: attempt_eq Let_def split: if_splits prod.splits sum.splits)

lemma run_error:
  assumes "\<And>strategy s. strategy \<in> set strats \<Longrightarrow> \<not> isl (fst (snd strategy s))"
    and "run_strategies eng target_faces i strats success s = (Inl e, s')"
  shows "e = ZeroDivisionError"
  using assms
proof (induction strats arbitrary: i success s)
  case Nil
  then show ?case by simp
next
  case (Cons strategy rest)
  obtain y s3 where at: "attempt eng target_faces i strategy success s = (y, s3)"
    by (cases "attempt eng target_faces i strategy success s")
  show ?case
  proof (cases y)
    case (Inl e')
    with Cons.prems(2) at have "e' = e" by simp
    with Inl at attempt_error [of strategy s i eng target_faces success e s3] Cons.prems(1)
    show ?thesis by simp
  next
    case (Inr p)
    obtain success' stop where p: "p = (success', stop)" by (cases p)
    with Cons.prems(2) at Inr have
      "run_strategies eng target_faces (i + 1) rest success' s3 = (Inl e, s')"
      by (simp split: if_splits)
    with Cons.IH Cons.prems(1) show ?thesis by simp
  qed
qed

lemma run_continues:
  assumes "snd strategy (fst s, snd s @ [P_strategy i (fst strategy)]) = (Inr False, s2)"
  shows "run_strategies eng target_faces i (strategy # rest) success s =
           run_strategies eng target_faces (i + 1) rest success s2"
  using assms by (simp add: attempt_eq)


lemma never_true_bind:
  assumes "\<And>x s1. m s = (Inr x, s1) \<Longrightarrow> fst (f x s1) \<noteq> Inr True"
  shows "fst (py_bind m f s) \<noteq> Inr True"
  using assms by (cases "m s"; cases "fst (m s)") (auto simp add: py_bind_def)

lemma never_true_then:
  assumes "\<And>x s1. m s = (Inr x, s1) \<Longrightarrow> fst (n s1) \<noteq> Inr True"
  shows "fst (py_then m n s) \<noteq> Inr True"
  unfolding py_then_def using assms by (rule never_true_bind)

lemma faces_bind:
  assumes "\<And>x s1. m s = (Inr x, s1) \<Longrightarrow> faces eng (fst (snd (f x s1))) = k"
    and "\<And>e s1. m s = (Inl e, s1) \<Longrightarrow> faces eng (fst s1) = k"
  shows "faces eng (fst (snd (py_bind m f s))) = k"
  using assms by (cases "m s"; cases "fst (m s)") (auto simp add: py_bind_def)

lemma faces_then:
  assumes "\<And>x s1. m s = (Inr x, s1) \<Longrightarrow> faces eng (fst (snd (n s1))) = k"
    and "\<And>e s1. m s = (Inl e, s1) \<Longrightarrow> faces eng (fst s1) = k"
  shows "faces eng (fst (snd (py_then m n s))) = k"
  unfolding py_then_def using assms by (rule faces_bind)

lemma print_result: "py_print ev s = (r, s1) \<Longrightarrow> fst s1 = fst s \<and> r = Inr ()"
  by (auto simp add: py_print_def)

lemma read_result: "py_read obs s = (r, s1) \<Longrightarrow> r = Inr (obs (fst s)) \<and> s1 = s"
  by (auto simp add: py_read_def)

lemma call_result: "py_call op s = (r, s1) \<Longrightarrow> fst s1 = snd (op (fst s))"
  by (auto simp add: py_call_def split: prod.splits option.splits)

lemma keeps:
  assumes "bookkeeping_keeps_faces eng"
  shows "faces eng (snd (set_active eng w)) = faces eng w"
    and "faces eng (snd (mode_set eng m w)) = faces eng w"
    and "faces eng (snd (modifiers_clear eng w)) = faces eng w"
    and "faces eng (snd (modifiers_new eng name md w)) = faces eng w"
    and "faces eng (snd (view_layer_update eng w)) = faces eng w"
  using assms unfolding bookkeeping_keeps_faces_def by blast+

lemma try_print_False:
  "fst (m s) \<noteq> Inr True \<Longrightarrow>
   fst (py_try m (\<lambda>e. py_then (py_print (ev e)) (py_return False)) s) = Inr False"
  by (cases "m s"; cases "fst (m s)") (auto simp add: py_try_print_eq)

lemma try_print_faces:
  "faces eng (fst (snd (py_try m (\<lambda>e. py_then (py_print (ev e)) (py_return False)) s))) =
   faces eng (fst (snd (m s)))"
  by (cases "m s"; cases "fst (m s)") (auto simp add: py_try_print_eq)

lemma quadric_small:
  assumes law: "bookkeeping_keeps_faces eng" and small: "faces eng (fst s) < 4"
  shows "fst (try_quadric_decimate eng r sharp s) = Inr False"
  unfolding try_quadric_decimate_def
proof (rule try_print_False)
  show "fst (quadric_body eng r sharp s) \<noteq> Inr True"
    unfolding quadric_body_def
    apply (rule never_true_then never_true_bind)+
    using small
    by (auto dest!: print_result call_result read_result
        simp add: keeps [OF law] py_then_def py_bind_def py_print_def py_return_def)
qed

lemma quadric_small_faces:
  assumes law: "bookkeeping_keeps_faces eng" and small: "faces eng (fst s) < 4"
  shows "faces eng (fst (snd (try_quadric_decimate eng r sharp s))) = faces eng (fst s)"
  unfolding try_quadric_decimate_def try_print_faces quadric_body_def
  apply (rule faces_then faces_bind)+
  using small
  by (auto dest!: print_result call_result read_result
      simp add: keeps [OF law] py_then_def py_bind_def py_print_def py_return_def)

lemma unsubdiv_faceless:
  assumes law: "bookkeeping_keeps_faces eng" and none: "faces eng (fst s) = 0"
  shows "fst (try_unsubdiv_decimate eng n s) = Inr False"
  unfolding try_unsubdiv_decimate_def
proof (rule try_print_False)
  show "fst (unsubdiv_body eng n s) \<noteq> Inr True"
    unfolding unsubdiv_body_def
    apply (rule never_true_then never_true_bind)+
    using none
    by (auto dest!: print_result call_result read_result
        simp add: keeps [OF law] py_return_def)
qed

lemma planar_faceless:
  assumes law: "bookkeeping_keeps_faces eng" and none: "faces eng (fst s) = 0"
  shows "fst (try_planar_decimate eng a s) = Inr False"
  unfolding try_planar_decimate_def
proof (rule try_print_False)
  show "fst (planar_body eng a s) \<noteq> Inr True"
    unfolding planar_body_def
    apply (rule never_true_then never_true_bind)+
    using none
    by (auto dest!: print_result call_result read_result
        simp add: keeps [OF law] py_return_def)
qed

lemma faceless_apply:
  "no_faces_from_none eng \<Longrightarrow> faces eng w = 0 \<Longrightarrow> faces eng (snd (modifier_apply eng name w)) = 0"
  unfolding no_faces_from_none_def by blast

lemma subsurf_faceless:
  assumes law: "bookkeeping_keeps_faces eng" and law2: "no_faces_from_none eng"
    and none: "faces eng (fst s) = 0"
  shows "fst (apply_subdivision_surface_then_decimate eng r s) = Inr False"
  unfolding apply_subdivision_surface_then_decimate_def
proof (rule try_print_False)
  show "fst (subsurf_body eng r s) \<noteq> Inr True"
    unfolding subsurf_body_def
    apply (rule never_true_then never_true_bind)+
    using none
    by (auto dest!: print_result call_result read_result
        simp add: keeps [OF law] faceless_apply [OF law2] py_div_def py_raise_def)
qed

lemma py_and_False: "fst (a s) = Inr False \<Longrightarrow> fst (py_and a c s) = Inr False"
  by (cases "a s") (simp add: py_and_def py_bind_def py_return_def)

lemma catalog_faceless:
  assumes "bookkeeping_keeps_faces eng" and "no_faces_from_none eng"
    and "strategy \<in> set (strategies eng mesh_type target_reduction)"
    and "faces eng (fst s) = 0"
  shows "fst (snd strategy s) = Inr False"
proof -
  have small: "faces eng (fst s) < 4" using assms(4) by simp
  note f = quadric_small [OF assms(1) small] unsubdiv_faceless [OF assms(1) assms(4)]
    planar_faceless [OF assms(1) assms(4)] subsurf_faceless [OF assms(1) assms(2) assms(4)]
    py_and_False [of "try_planar_decimate eng 3" s, OF planar_faceless [OF assms(1) assms(4)]]
  from assms(3) show ?thesis
    by (auto simp add: strategies_def f split: if_splits)
qed

lemma run_total:
  assumes "bookkeeping_keeps_faces eng" and "no_faces_from_none eng"
    and "set strats \<subseteq> set (strategies eng mesh_type target_reduction)"
  shows "\<not> isl (fst (run_strategies eng target_faces i strats success s))"
  using assms(3)
proof (induction strats arbitrary: i success s)
  case Nil
  then show ?case by simp
next
  case (Cons strategy rest)
  from Cons.prems have mem: "strategy \<in> set (strategies eng mesh_type target_reduction)"
    and sub: "set rest \<subseteq> set (strategies eng mesh_type target_reduction)"
    by simp_all
  obtain y s3 where at: "attempt eng target_faces i strategy success s = (y, s3)"
    by (cases "attempt eng target_faces i strategy success s")
  show ?case
  proof (cases y)
    case (Inl e)
    from attempt_error [OF catalog_total [OF mem] at [unfolded Inl]]
    have "faces eng (fst s) = 0"
      and "fst (snd strategy (fst s, snd s @ [P_strategy i (fst strategy)])) = Inr True"
      by simp_all
    with catalog_faceless [OF assms(1) assms(2) mem, of "(fst s, snd s @ [P_strategy i (fst strategy)])"]
    show ?thesis by simp
  next
    case (Inr p)
    obtain success' stop where p: "p = (success', stop)" by (cases p)
    from Cons.IH [OF sub] at Inr p show ?thesis by simp
  qed
qed

lemma toy_laws: "bookkeeping_keeps_faces (toy_engine k)" "no_faces_from_none (toy_engine k)"
  by (simp_all add: bookkeeping_keeps_faces_def no_faces_from_none_def toy_simps toy_apply_def
      split: option.splits)

text \<open>
  C8. Each of the four primitives returns a boolean in every state of every engine: an
  exception raised inside its \<^verbatim>\<open>try\<close> block, by whichever engine call, is caught at the
  primitive, reported, and turned into false. When a strategy returns false the loop goes
  on with the next strategy and the flag unchanged. No engine error leaves the loop over a
  catalogue list: the one exception that can is the ZeroDivisionError of the controller's
  own percentage, and an engine that keeps the face count in its bookkeeping calls and makes
  no faces out of none never raises it, so the loop returns.
\<close>

theorem strategy_errors_contained:
  "(\<exists>b s'. try_quadric_decimate eng r sharp s = (Inr b, s'))
   \<and> (\<exists>b s'. try_unsubdiv_decimate eng n s = (Inr b, s'))
   \<and> (\<exists>b s'. try_planar_decimate eng a s = (Inr b, s'))
   \<and> (\<exists>b s'. apply_subdivision_surface_then_decimate eng r s = (Inr b, s'))
   \<and> (quadric_body eng r sharp s = (Inl e, s1) \<longrightarrow>
        try_quadric_decimate eng r sharp s = (Inr False, (fst s1, snd s1 @ [P_quadric_failed e])))
   \<and> (unsubdiv_body eng n s = (Inl e, s1) \<longrightarrow>
        try_unsubdiv_decimate eng n s = (Inr False, (fst s1, snd s1 @ [P_unsubdiv_failed e])))
   \<and> (planar_body eng a s = (Inl e, s1) \<longrightarrow>
        try_planar_decimate eng a s = (Inr False, (fst s1, snd s1 @ [P_planar_failed e])))
   \<and> (subsurf_body eng r s = (Inl e, s1) \<longrightarrow>
        apply_subdivision_surface_then_decimate eng r s =
          (Inr False, (fst s1, snd s1 @ [P_subsurf_failed e])))
   \<and> (snd strategy (fst s, snd s @ [P_strategy i (fst strategy)]) = (Inr False, s2) \<longrightarrow>
        run_strategies eng target_faces i (strategy # rest) success s =
          run_strategies eng target_faces (i + 1) rest success s2)
   \<and> (run_strategies eng target_faces i (strategies eng mesh_type target_reduction) success s =
          (Inl e, s') \<longrightarrow> e = ZeroDivisionError)
   \<and> (bookkeeping_keeps_faces eng \<and> no_faces_from_none eng \<longrightarrow>
        (\<exists>b s'. run_strategies eng target_faces i
                   (strategies eng mesh_type target_reduction) success s = (Inr b, s')))"
proof -
  have 1: "\<exists>b s'. try_quadric_decimate eng r sharp s = (Inr b, s')"
    by (rule not_isl_Inr [OF quadric_total])
  have 2: "\<exists>b s'. try_unsubdiv_decimate eng n s = (Inr b, s')"
    by (rule not_isl_Inr [OF unsubdiv_total])
  have 3: "\<exists>b s'. try_planar_decimate eng a s = (Inr b, s')"
    by (rule not_isl_Inr [OF planar_total])
  have 4: "\<exists>b s'. apply_subdivision_surface_then_decimate eng r s = (Inr b, s')"
    by (rule not_isl_Inr [OF subsurf_total])
  have 5: "quadric_body eng r sharp s = (Inl e, s1) \<longrightarrow>
        try_quadric_decimate eng r sharp s = (Inr False, (fst s1, snd s1 @ [P_quadric_failed e]))"
    by (simp add: try_quadric_decimate_def py_try_print_eq)
  have 6: "unsubdiv_body eng n s = (Inl e, s1) \<longrightarrow>
        try_unsubdiv_decimate eng n s = (Inr False, (fst s1, snd s1 @ [P_unsubdiv_failed e]))"
    by (simp add: try_unsubdiv_decimate_def py_try_print_eq)
  have 7: "planar_body eng a s = (Inl e, s1) \<longrightarrow>
        try_planar_decimate eng a s = (Inr False, (fst s1, snd s1 @ [P_planar_failed e]))"
    by (simp add: try_planar_decimate_def py_try_print_eq)
  have 8: "subsurf_body eng r s = (Inl e, s1) \<longrightarrow>
        apply_subdivision_surface_then_decimate eng r s =
          (Inr False, (fst s1, snd s1 @ [P_subsurf_failed e]))"
    by (simp add: apply_subdivision_surface_then_decimate_def py_try_print_eq)
  have 9: "snd strategy (fst s, snd s @ [P_strategy i (fst strategy)]) = (Inr False, s2) \<longrightarrow>
        run_strategies eng target_faces i (strategy # rest) success s =
          run_strategies eng target_faces (i + 1) rest success s2"
    using run_continues by blast
  have 10: "run_strategies eng target_faces i (strategies eng mesh_type target_reduction) success s =
          (Inl e, s') \<longrightarrow> e = ZeroDivisionError"
    using run_error [of "strategies eng mesh_type target_reduction" eng target_faces i success s e s']
      catalog_total [of _ eng mesh_type target_reduction]
    by blast
  have 11: "bookkeeping_keeps_faces eng \<and> no_faces_from_none eng \<longrightarrow>
        (\<exists>b s'. run_strategies eng target_faces i
                   (strategies eng mesh_type target_reduction) success s = (Inr b, s'))"
  proof
    assume "bookkeeping_keeps_faces eng \<and> no_faces_from_none eng"
    then have k: "bookkeeping_keeps_faces eng" and z: "no_faces_from_none eng"
      by simp_all
    have "\<not> isl (fst (run_strategies eng target_faces i
                   (strategies eng mesh_type target_reduction) success s))"
      by (rule run_total [OF k z subset_refl])
    then show "\<exists>b s'. run_strategies eng target_faces i
                   (strategies eng mesh_type target_reduction) success s = (Inr b, s')"
      by (rule not_isl_Inr)
  qed
  from 1 2 3 4 5 6 7 8 9 10 11 show ?thesis by (intro conjI)
qed


lemma quadric_fail_toy:
  "try_quadric_decimate (toy_engine k_fail) (1 / 2) True (quad_mesh 100, []) =
     (Inr False,
      ((quad_mesh 100)\<lparr>tw_mods := [(''QuadricDecimate'', Decimate_collapse (1 / 2) False (Some 15))]\<rparr>,
       [P_quadric (1 / 2), P_quadric_failed RuntimeError]))"
  by (simp add: prim_defs py_defs toy_simps toy_apply_def quad_mesh_def k_fail_def)

theorem strategy_errors_contained_witness:
  "quadric_body (toy_engine k_fail) (1 / 2) True (quad_mesh 100, []) =
     (Inl RuntimeError,
      ((quad_mesh 100)\<lparr>tw_mods := [(''QuadricDecimate'', Decimate_collapse (1 / 2) False (Some 15))]\<rparr>,
       [P_quadric (1 / 2)]))
   \<and> try_quadric_decimate (toy_engine k_fail) (1 / 2) True (quad_mesh 100, []) =
     (Inr False,
      ((quad_mesh 100)\<lparr>tw_mods := [(''QuadricDecimate'', Decimate_collapse (1 / 2) False (Some 15))]\<rparr>,
       [P_quadric (1 / 2), P_quadric_failed RuntimeError]))
   \<and> try_unsubdiv_decimate (toy_engine k_fail) 2 (quad_mesh 100, []) =
     (Inr False,
      ((quad_mesh 100)\<lparr>tw_mods := [(''UnsubDiv'', Decimate_unsubdiv 2)]\<rparr>,
       [P_unsubdiv 2, P_unsubdiv_failed RuntimeError]))
   \<and> try_planar_decimate (toy_engine k_fail) 5 (quad_mesh 100, []) =
     (Inr False,
      ((quad_mesh 100)\<lparr>tw_mods := [(''PlanarDecimate'', Decimate_dissolve 5 False)]\<rparr>,
       [P_planar 5, P_planar_failed RuntimeError]))
   \<and> apply_subdivision_surface_then_decimate (toy_engine k_fail) (1 / 2) (quad_mesh 100, []) =
     (Inr False,
      ((quad_mesh 100)\<lparr>tw_mods := [(''SubSurf'', Subsurf 1 1)]\<rparr>,
       [P_subsurf, P_subsurf_failed RuntimeError]))
   \<and> bookkeeping_keeps_faces (toy_engine k_fail) \<and> no_faces_from_none (toy_engine k_fail)
   \<and> (\<exists>b s'. run_strategies (toy_engine k_fail) 50 1
                (strategies (toy_engine k_fail) ''structured'' (1 / 2)) False (quad_mesh 100, []) =
                (Inr b, s'))"
  using strategy_errors_contained [of "toy_engine k_fail" "1 / 2" True "(quad_mesh 100, [])"
      2 5 RuntimeError
      "((quad_mesh 100)\<lparr>tw_mods := [(''QuadricDecimate'', Decimate_collapse (1 / 2) False (Some 15))]\<rparr>,
       [P_quadric (1 / 2)])"
      "(''Conservative Quadric'', try_quadric_decimate (toy_engine k_fail) (7 / 20) True)" 1
      "((quad_mesh 100)\<lparr>tw_mods := [(''QuadricDecimate'', Decimate_collapse (13 / 20) False (Some 15))]\<rparr>,
       [P_strategy 1 ''Conservative Quadric'', P_quadric (7 / 20), P_quadric_failed RuntimeError])"
      50 "[]" False "''structured''" "1 / 2"
      "snd (run_strategies (toy_engine k_fail) 50 1
                (strategies (toy_engine k_fail) ''structured'' (1 / 2)) False (quad_mesh 100, []))"]
    strategy_errors_contained [of "toy_engine k_fail" "1 / 2" True "(quad_mesh 100, [])"
      2 5 RuntimeError
      "((quad_mesh 100)\<lparr>tw_mods := [(''UnsubDiv'', Decimate_unsubdiv 2)]\<rparr>, [P_unsubdiv 2])"]
    strategy_errors_contained [of "toy_engine k_fail" "1 / 2" True "(quad_mesh 100, [])"
      2 5 RuntimeError
      "((quad_mesh 100)\<lparr>tw_mods := [(''PlanarDecimate'', Decimate_dissolve 5 False)]\<rparr>,
       [P_planar 5])"]
    strategy_errors_contained [of "toy_engine k_fail" "1 / 2" True "(quad_mesh 100, [])"
      2 5 RuntimeError
      "((quad_mesh 100)\<lparr>tw_mods := [(''SubSurf'', Subsurf 1 1)]\<rparr>, [P_subsurf])"]
    toy_laws [of k_fail]
  by (simp add: prim_defs py_defs toy_simps toy_apply_def quad_mesh_def k_fail_def)

section \<open>A mesh of three faces\<close>

text \<open>
  C5, as the code has it. On a mesh of three faces the collapse primitive returns false and
  leaves the face count at three: it stops at its floor of four faces, before any modifier
  is added. \<open>intelligent_mesh_reduction\<close> on a valid mesh of three faces returns true with
  the mesh untouched, by its guard for meshes of fewer than 100 faces. The engine is one
  whose bookkeeping calls keep the face count.
\<close>

theorem three_faces:
  assumes "bookkeeping_keeps_faces eng" and "faces eng w = 3"
  shows "fst (try_quadric_decimate eng r sharp (w, out)) = Inr False
         \<and> faces eng (fst (snd (try_quadric_decimate eng r sharp (w, out)))) = 3
         \<and> (obj_name eng w = Inr nm \<and> obj_type eng w = ''MESH'' \<longrightarrow>
              intelligent_mesh_reduction eng target_reduction (w, out) =
                (Inr True, (w, out @ [P_begin 3, P_too_few_faces])))"
proof -
  have small: "faces eng (fst (w, out)) < 4" using assms(2) by simp
  have a: "fst (try_quadric_decimate eng r sharp (w, out)) = Inr False"
    by (rule quadric_small [OF assms(1) small])
  have b: "faces eng (fst (snd (try_quadric_decimate eng r sharp (w, out)))) = 3"
    using quadric_small_faces [OF assms(1) small, of r sharp] assms(2) by simp
  have c: "obj_name eng w = Inr nm \<and> obj_type eng w = ''MESH'' \<longrightarrow>
              intelligent_mesh_reduction eng target_reduction (w, out) =
                (Inr True, (w, out @ [P_begin 3, P_too_few_faces]))"
    using assms(2) unfolding intelligent_mesh_reduction_def
    by (simp add: py_bind_def is_valid_obj_named py_then_def py_read_def py_print_def
        py_return_def)
  from a b c show ?thesis by blast
qed

theorem three_faces_witness:
  "bookkeeping_keeps_faces (toy_engine (k_trim 1)) \<and> faces (toy_engine (k_trim 1)) (tri_mesh 3) = 3
   \<and> try_quadric_decimate (toy_engine (k_trim 1)) (1 / 2) True (tri_mesh 3, []) =
       (Inr False, (tri_mesh 3, [P_quadric (1 / 2), P_quadric_skip 3]))
   \<and> intelligent_mesh_reduction (toy_engine (k_trim 1)) (1 / 2) (tri_mesh 3, []) =
       (Inr True, (tri_mesh 3, [P_begin 3, P_too_few_faces]))"
  using three_faces [of "toy_engine (k_trim 1)" "tri_mesh 3" "1 / 2" True "[]" "''Mesh''" "1 / 2"]
    toy_laws [of "k_trim 1"]
  by (simp add: prim_defs py_defs toy_simps toy_apply_def tri_mesh_def)

text \<open>
  C5 as stated fails: on a valid mesh of three triangles the reduction returns true, not
  false, and the planar dissolve, which has no floor, returns true as soon as the engine
  dissolves one face.
\<close>

theorem three_faces_counterexample:
  "intelligent_mesh_reduction (toy_engine (k_trim 1)) (1 / 2) (tri_mesh 3, []) =
     (Inr True, (tri_mesh 3, [P_begin 3, P_too_few_faces]))
   \<and> try_planar_decimate (toy_engine (k_trim 1)) 5 (tri_mesh 3, []) =
     (Inr True, ((tri_mesh 3)\<lparr>tw_polys := replicate 2 3\<rparr>, [P_planar 5]))"
  by (simp add: intelligent_mesh_reduction_def is_valid_obj_def prim_defs py_defs toy_simps
      toy_apply_def tri_mesh_def)

section \<open>Success without post-processing\<close>

lemma attempt_small_step:
  assumes tot: "\<not> isl (fst (snd strategy (fst s, snd s @ [P_strategy i (fst strategy)])))"
    and pos: "0 < faces eng (fst s)"
  obtains ok s2 where
    "snd strategy (fst s, snd s @ [P_strategy i (fst strategy)]) = (Inr ok, s2)"
    "attempt_record eng i strategy s = Some (faces eng (fst s), ok, faces eng (fst s2))"
    "\<not> effective (faces eng (fst s), ok, faces eng (fst s2)) \<Longrightarrow>
       \<exists>s3. attempt eng target_faces i strategy success s = (Inr (success, False), s3)
            \<and> fst s3 = fst s2"
proof -
  from not_isl_Inr [OF tot] obtain ok s2 where
    st: "snd strategy (fst s, snd s @ [P_strategy i (fst strategy)]) = (Inr ok, s2)"
    by blast
  have rec: "attempt_record eng i strategy s = Some (faces eng (fst s), ok, faces eng (fst s2))"
    by (simp add: attempt_record_def st)
  have "\<exists>s3. attempt eng target_faces i strategy success s = (Inr (success, False), s3)
            \<and> fst s3 = fst s2"
    if "\<not> effective (faces eng (fst s), ok, faces eng (fst s2))"
    using that pos by (cases ok) (simp_all add: attempt_eq st Let_def effective_def)
  with st rec show ?thesis by (rule that)
qed

lemma run_small_steps:
  assumes tot: "\<And>strategy s. strategy \<in> set strats \<Longrightarrow> \<not> isl (fst (snd strategy s))"
    and pos: "0 < faces eng (fst s)"
    and steps: "\<forall>r \<in> set (attempt_trace eng target_faces i strats success s).
                  snd (snd r) \<le> fst r \<and> of_nat (fst r) * (95 / 100 :: rat) \<le> of_nat (snd (snd r))"
  shows "\<exists>s'. run_strategies eng target_faces i strats success s = (Inr success, s')
           \<and> 0 < faces eng (fst s') \<and> faces eng (fst s') \<le> faces eng (fst s)
           \<and> ((\<exists>r \<in> set (attempt_trace eng target_faces i strats success s). snd (snd r) < fst r)
                \<longrightarrow> faces eng (fst s') < faces eng (fst s))"
  using assms
proof (induction strats arbitrary: i s)
  case Nil
  then show ?case by simp
next
  case (Cons strategy rest)
  have t: "\<not> isl (fst (snd strategy (fst s, snd s @ [P_strategy i (fst strategy)])))"
    using Cons.prems(1) by simp
  from attempt_small_step [OF t Cons.prems(2), of target_faces success]
  obtain ok s2 where
    st: "snd strategy (fst s, snd s @ [P_strategy i (fst strategy)]) = (Inr ok, s2)"
    and rec: "attempt_record eng i strategy s = Some (faces eng (fst s), ok, faces eng (fst s2))"
    and at: "\<not> effective (faces eng (fst s), ok, faces eng (fst s2)) \<Longrightarrow>
       \<exists>s3. attempt eng target_faces i strategy success s = (Inr (success, False), s3)
            \<and> fst s3 = fst s2"
    by blast
  let ?fb = "faces eng (fst s)" and ?fa = "faces eng (fst s2)"
  have head: "(?fb, ok, ?fa) \<in> set (attempt_trace eng target_faces i (strategy # rest) success s)"
    by (simp add: rec)
  with Cons.prems(3) have le: "?fa \<le> ?fb"
    and ge: "of_nat ?fb * (95 / 100 :: rat) \<le> of_nat ?fa"
    by fastforce+
  from ge have ne: "\<not> effective (?fb, ok, ?fa)" by (simp add: effective_def)
  from at [OF ne] obtain s3 where
    a3: "attempt eng target_faces i strategy success s = (Inr (success, False), s3)"
    and w3: "fst s3 = fst s2" by blast
  have tr: "attempt_trace eng target_faces i (strategy # rest) success s =
      (?fb, ok, ?fa) # attempt_trace eng target_faces (i + 1) rest success s3"
    by (simp add: rec a3)
  from ge Cons.prems(2) have pa: "0 < ?fa" by (cases "?fa = 0") simp_all
  have "\<exists>s'. run_strategies eng target_faces (i + 1) rest success s3 = (Inr success, s')
           \<and> 0 < faces eng (fst s') \<and> faces eng (fst s') \<le> faces eng (fst s3)
           \<and> ((\<exists>r \<in> set (attempt_trace eng target_faces (i + 1) rest success s3). snd (snd r) < fst r)
                \<longrightarrow> faces eng (fst s') < faces eng (fst s3))"
  proof (rule Cons.IH)
    show "\<not> isl (fst (snd strategy' s'))" if "strategy' \<in> set rest" for strategy' s'
      using that Cons.prems(1) by simp
    show "0 < faces eng (fst s3)" using pa w3 by simp
    show "\<forall>r \<in> set (attempt_trace eng target_faces (i + 1) rest success s3).
            snd (snd r) \<le> fst r \<and> of_nat (fst r) * (95 / 100 :: rat) \<le> of_nat (snd (snd r))"
      using Cons.prems(3) unfolding tr by simp
  qed
  then obtain s' where
    r: "run_strategies eng target_faces (i + 1) rest success s3 = (Inr success, s')"
    and p: "0 < faces eng (fst s')" and l: "faces eng (fst s') \<le> ?fa"
    and strict: "(\<exists>r \<in> set (attempt_trace eng target_faces (i + 1) rest success s3). snd (snd r) < fst r)
                \<longrightarrow> faces eng (fst s') < ?fa"
    using w3 by auto
  have run: "run_strategies eng target_faces i (strategy # rest) success s = (Inr success, s')"
    using a3 r by simp
  have "faces eng (fst s') < ?fb"
    if "\<exists>r \<in> set (attempt_trace eng target_faces i (strategy # rest) success s). snd (snd r) < fst r"
    using that strict l le unfolding tr by auto
  with run p l le show ?case by auto
qed

text \<open>
  C10. Take a valid mesh of at least 100 faces and a run in which no attempt raises the face
  count, every attempt leaves at least 0.95 times the faces it found, and at least one
  attempt removes a face. Then the loop ends with the sticky flag false, so the
  post-processing is skipped: the state in which \<open>intelligent_mesh_reduction\<close> returns is
  the state the loop ended in, with the one closing line printed after it. The final face
  count is below the original one, and the call returns true.
\<close>

theorem postprocess_skipped:
  assumes "obj_name eng w = Inr nm" and "obj_type eng w = ''MESH''" and "100 \<le> faces eng w"
    and "mesh_type = classify (quadRatio eng w) (vertexFaceRatio eng w)"
    and "s0 = (w, out @ [P_begin (faces eng w),
                          P_analysis (faces eng w) (vertices eng w)
                            (quadRatio eng w) (vertexFaceRatio eng w),
                          P_mesh_type mesh_type])"
    and "target_faces = py_int (of_nat (faces eng w) * (1 - target_reduction))"
    and "trace = attempt_trace eng target_faces 1
                   (strategies eng mesh_type target_reduction) False s0"
    and "\<forall>r \<in> set trace.
           snd (snd r) \<le> fst r \<and> of_nat (fst r) * (95 / 100 :: rat) \<le> of_nat (snd (snd r))"
    and "\<exists>r \<in> set trace. snd (snd r) < fst r"
  shows "\<exists>s1. run_strategies eng target_faces 1
                 (strategies eng mesh_type target_reduction) False s0 = (Inr False, s1)
           \<and> faces eng (fst s1) < faces eng w
           \<and> intelligent_mesh_reduction eng target_reduction (w, out) =
               (Inr True,
                (fst s1, snd s1 @ [P_reduced (faces eng w) (faces eng (fst s1))
                   ((of_nat (faces eng w) - of_nat (faces eng (fst s1)))
                      / of_nat (faces eng w) * 100)]))"
proof -
  have pos: "0 < faces eng (fst s0)" using assms(3) assms(5) by simp
  have tot: "\<not> isl (fst (snd strategy s))"
    if "strategy \<in> set (strategies eng mesh_type target_reduction)" for strategy s
    using that by (rule catalog_total)
  have steps: "\<forall>r \<in> set (attempt_trace eng target_faces 1
                  (strategies eng mesh_type target_reduction) False s0).
      snd (snd r) \<le> fst r \<and> of_nat (fst r) * (95 / 100 :: rat) \<le> of_nat (snd (snd r))"
    using assms(8) unfolding assms(7) .
  have some: "\<exists>r \<in> set (attempt_trace eng target_faces 1
                  (strategies eng mesh_type target_reduction) False s0). snd (snd r) < fst r"
    using assms(9) unfolding assms(7) .
  from run_small_steps [OF tot pos steps] some
  obtain s1 where run: "run_strategies eng target_faces 1
                 (strategies eng mesh_type target_reduction) False s0 = (Inr False, s1)"
    and lt: "faces eng (fst s1) < faces eng (fst s0)"
    by blast
  from lt assms(5) have lt': "faces eng (fst s1) < faces eng w" by simp
  have "intelligent_mesh_reduction eng target_reduction (w, out) =
          finish eng (faces eng w) False s1"
    using run assms(4) assms(5) assms(6)
    by (simp add: reduce_eq [OF assms(1) assms(2) assms(3)] Let_def)
  also have "\<dots> = (Inr True,
                (fst s1, snd s1 @ [P_reduced (faces eng w) (faces eng (fst s1))
                   ((of_nat (faces eng w) - of_nat (faces eng (fst s1)))
                      / of_nat (faces eng w) * 100)]))"
    using lt' by (simp add: finish_eq py_return_def)
  finally show ?thesis using run lt' by blast
qed


lemma trace_trim1:
  "attempt_trace (toy_engine (k_trim 1)) 50 1
     (strategies (toy_engine (k_trim 1)) ''structured'' (1 / 2)) False
     (quad_mesh 100, [P_begin 100, P_analysis 100 102 1 (51 / 50), P_mesh_type ''structured'']) =
   [(100, True, 99), (99, True, 98), (98, True, 97), (97, True, 96)]"
  by (simp add: strategies_def attempt_record_def attempt_eq prim_defs py_defs toy_simps
      toy_apply_def quad_mesh_def Let_def)

lemma reduce_trim1:
  "intelligent_mesh_reduction (toy_engine (k_trim 1)) (1 / 2) (quad_mesh 100, []) =
     (Inr True, ((quad_mesh 100)\<lparr>tw_polys := replicate 96 4\<rparr>,
        [P_begin 100, P_analysis 100 102 1 (51 / 50), P_mesh_type ''structured'',
         P_strategy 1 ''Conservative Quadric'', P_quadric (7 / 20), P_result 99 1,
         P_strategy 2 ''Un-Subdivide'', P_unsubdiv 2, P_result 98 (100 / 99),
         P_strategy 3 ''Standard Quadric'', P_quadric (1 / 2), P_result 97 (50 / 49),
         P_strategy 4 ''Planar Dissolve'', P_planar 5, P_result 96 (100 / 97),
         P_reduced 100 96 4]))"
  apply (subst reduce_eq [of _ _ "''Mesh''"])
     apply (simp_all add: toy_simps quad_mesh_def)
  apply (simp add: classify_def quadRatio_def vertexFaceRatio_def toy_simps py_int_def Let_def
      strategies_def attempt_eq prim_defs py_defs toy_apply_def finish_eq quad_mesh_def)
  done

theorem postprocess_skipped_witness:
  "attempt_trace (toy_engine (k_trim 1)) 50 1
     (strategies (toy_engine (k_trim 1)) ''structured'' (1 / 2)) False
     (quad_mesh 100, [P_begin 100, P_analysis 100 102 1 (51 / 50), P_mesh_type ''structured'']) =
     [(100, True, 99), (99, True, 98), (98, True, 97), (97, True, 96)]
   \<and> (\<exists>s1. run_strategies (toy_engine (k_trim 1)) 50 1
              (strategies (toy_engine (k_trim 1)) ''structured'' (1 / 2)) False
              (quad_mesh 100,
               [P_begin 100, P_analysis 100 102 1 (51 / 50), P_mesh_type ''structured'']) =
              (Inr False, s1)
          \<and> intelligent_mesh_reduction (toy_engine (k_trim 1)) (1 / 2) (quad_mesh 100, []) =
              (Inr True, (fst s1, snd s1 @ [P_reduced 100 (faces (toy_engine (k_trim 1)) (fst s1))
                 ((100 - of_nat (faces (toy_engine (k_trim 1)) (fst s1))) / 100 * 100)])))
   \<and> P_postprocess \<notin> set (snd (snd
         (intelligent_mesh_reduction (toy_engine (k_trim 1)) (1 / 2) (quad_mesh 100, []))))"
  using postprocess_skipped [of "toy_engine (k_trim 1)" "quad_mesh 100" "''Mesh''" "''structured''"
      "(quad_mesh 100, [P_begin 100, P_analysis 100 102 1 (51 / 50), P_mesh_type ''structured''])"
      "[]" 50 "1 / 2" "[(100, True, 99), (99, True, 98), (98, True, 97), (97, True, 96)]"]
    trace_trim1 reduce_trim1
  by (simp add: toy_simps quad_mesh_def classify_def quadRatio_def vertexFaceRatio_def py_int_def)

section \<open>The reduction flag\<close>







section \<open>The strategy catalogue\<close>

lemma and_then_true:
  "fst (run_spec eng (AndThen a b) s) = Inr True \<longleftrightarrow>
     fst (run_spec eng a s) = Inr True
     \<and> fst (run_spec eng b (snd (run_spec eng a s))) = Inr True"
  by (cases "run_spec eng a s"; cases "fst (run_spec eng a s)")
    (auto simp add: py_bind_def py_return_def)

text \<open>
  C7, as the code has it. For every target reduction and every engine the list of
  \<open>strategies\<close> is the catalogue of the specification, entry by entry and in order:
  structured gets collapse at 0.7 times the target with sharp edges kept, un-subdivide 2,
  collapse at the target with sharp edges kept, planar dissolve at 5 degrees; dense gets
  subdivide-then-collapse at the target, collapse at 0.8 times the target with sharp edges
  kept, un-subdivide 3, collapse at the target without the sharp-edge limit; any other
  category gets collapse at 0.6 times the target, subdivide-then-collapse at the target, the
  composite, and collapse at the target. The composite is planar dissolve at 3 degrees and
  then collapse at half the target: it succeeds exactly when both succeed, and the collapse
  is not called when the planar dissolve has returned false.
\<close>

theorem catalog_as_coded:
  "map snd (strategies eng mesh_type target_reduction) =
     map (run_spec eng)
       (catalog_spec (AndThen (PlanarDissolve 3) (Collapse (5 / 10 * target_reduction) True))
          mesh_type target_reduction)
   \<and> map fst (strategies eng ''structured'' target_reduction) =
       [''Conservative Quadric'', ''Un-Subdivide'', ''Standard Quadric'', ''Planar Dissolve'']
   \<and> map fst (strategies eng ''dense'' target_reduction) =
       [''SubSurf + Decimate'', ''Progressive Quadric'', ''Un-Subdivide'', ''Aggressive Quadric'']
   \<and> map fst (strategies eng ''organic'' target_reduction) =
       [''Quality Quadric'', ''SubSurf + Decimate'', ''Planar + Quadric'', ''Standard Quadric'']
   \<and> (fst (run_spec eng (AndThen a b) s) = Inr True \<longleftrightarrow>
        fst (run_spec eng a s) = Inr True
        \<and> fst (run_spec eng b (snd (run_spec eng a s))) = Inr True)
   \<and> (fst (run_spec eng a s) = Inr False \<longrightarrow>
        run_spec eng (AndThen a b) s = run_spec eng a s)"
proof -
  have 1: "map snd (strategies eng mesh_type target_reduction) =
     map (run_spec eng)
       (catalog_spec (AndThen (PlanarDissolve 3) (Collapse (5 / 10 * target_reduction) True))
          mesh_type target_reduction)"
    by (simp add: strategies_def catalog_spec_def py_and_def mult.commute cong: if_cong)
  have 2: "map fst (strategies eng ''structured'' target_reduction) =
       [''Conservative Quadric'', ''Un-Subdivide'', ''Standard Quadric'', ''Planar Dissolve'']"
    by (simp add: strategies_def)
  have 3: "map fst (strategies eng ''dense'' target_reduction) =
       [''SubSurf + Decimate'', ''Progressive Quadric'', ''Un-Subdivide'', ''Aggressive Quadric'']"
    by (simp add: strategies_def)
  have 4: "map fst (strategies eng ''organic'' target_reduction) =
       [''Quality Quadric'', ''SubSurf + Decimate'', ''Planar + Quadric'', ''Standard Quadric'']"
    by (simp add: strategies_def)
  have 5: "fst (run_spec eng a s) = Inr False \<longrightarrow>
        run_spec eng (AndThen a b) s = run_spec eng a s"
    by (cases "run_spec eng a s") (auto simp add: py_bind_def py_return_def)
  from 1 2 3 4 and_then_true [of eng a b s] 5 show ?thesis by blast
qed

lemma composite_code_fail:
  "snd (strategies (toy_engine k_fail) ''organic'' (1 / 2) ! 2) (tri_mesh 100, []) =
     (Inr False,
      ((tri_mesh 100)\<lparr>tw_mods := [(''PlanarDecimate'', Decimate_dissolve 3 False)]\<rparr>,
       [P_planar 3, P_planar_failed RuntimeError]))"
  by (simp add: strategies_def prim_defs py_defs toy_simps toy_apply_def tri_mesh_def k_fail_def)

theorem catalog_as_coded_witness:
  "fst (run_spec (toy_engine k_fail) (PlanarDissolve 3) (tri_mesh 100, [])) = Inr False
   \<and> run_spec (toy_engine k_fail) (AndThen (PlanarDissolve 3) (Collapse (1 / 4) True)) (tri_mesh 100, []) =
      (Inr False,
       ((tri_mesh 100)\<lparr>tw_mods := [(''PlanarDecimate'', Decimate_dissolve 3 False)]\<rparr>,
        [P_planar 3, P_planar_failed RuntimeError]))
   \<and> map snd (strategies (toy_engine k_fail) ''organic'' (1 / 2)) =
     map (run_spec (toy_engine k_fail))
       (catalog_spec (AndThen (PlanarDissolve 3) (Collapse (5 / 10 * (1 / 2)) True))
          ''organic'' (1 / 2))"
  using catalog_as_coded [of "toy_engine k_fail" "''organic''" "1 / 2" "PlanarDissolve 3"
      "Collapse (1 / 4) True" "(tri_mesh 100, [])"]
  by (simp add: prim_defs py_defs toy_simps toy_apply_def tri_mesh_def k_fail_def)

text \<open>
  C7 as stated fails in the composite: with an engine whose modifiers all fail, the third
  organic strategy of the script stops after the failed planar dissolve, while a composite
  in which both primitives run goes on to announce and attempt the collapse.
\<close>

theorem catalog_as_coded_counterexample:
  "snd (strategies (toy_engine k_fail) ''organic'' (1 / 2) ! 2) (tri_mesh 100, []) =
     (Inr False,
      ((tri_mesh 100)\<lparr>tw_mods := [(''PlanarDecimate'', Decimate_dissolve 3 False)]\<rparr>,
       [P_planar 3, P_planar_failed RuntimeError]))
   \<and> run_spec (toy_engine k_fail)
       (catalog_spec (Both (PlanarDissolve 3) (Collapse (5 / 10 * (1 / 2)) True))
          ''organic'' (1 / 2) ! 2) (tri_mesh 100, []) =
     (Inr False,
      ((tri_mesh 100)\<lparr>tw_mods :=
          [(''QuadricDecimate'', Decimate_collapse (3 / 4) False (Some 15))]\<rparr>,
       [P_planar 3, P_planar_failed RuntimeError, P_quadric (1 / 4),
        P_quadric_failed RuntimeError]))"
  by (simp add: strategies_def catalog_spec_def prim_defs py_defs toy_simps toy_apply_def
      tri_mesh_def k_fail_def)

section \<open>Stopping early\<close>

lemma run_break:
  assumes st: "snd strategy (fst s, snd s @ [P_strategy i (fst strategy)]) = (Inr True, s2)"
    and eff: "effective (faces eng (fst s), True, faces eng (fst s2))"
    and near: "near_target target_faces (faces eng (fst s2))"
  shows "run_strategies eng target_faces i (strategy # rest) success s =
           (Inr True,
            (fst s2, snd s2 @ [P_result (faces eng (fst s2))
                                 ((of_nat (faces eng (fst s)) - of_nat (faces eng (fst s2)))
                                    / of_nat (faces eng (fst s)) * 100),
                               P_near_target]))"
proof -
  from eff have lt: "of_nat (faces eng (fst s2)) < of_nat (faces eng (fst s)) * (95 / 100 :: rat)"
    by (simp add: effective_def)
  then have pos: "faces eng (fst s) \<noteq> 0" by (cases "faces eng (fst s) = 0") simp_all
  from near have n: "of_int target_faces * (7 / 10 :: rat) \<le> of_nat (faces eng (fst s2))
      \<and> of_nat (faces eng (fst s2)) \<le> of_int target_faces * (13 / 10 :: rat)"
    by (simp add: near_target_def)
  have "attempt eng target_faces i strategy success s =
          (Inr (True, True),
            (fst s2, snd s2 @ [P_result (faces eng (fst s2))
                                 ((of_nat (faces eng (fst s)) - of_nat (faces eng (fst s2)))
                                    / of_nat (faces eng (fst s)) * 100),
                               P_near_target]))"
    unfolding attempt_eq st Let_def using pos lt n by simp
  then show ?thesis by simp
qed

lemma run_no_break:
  assumes st: "snd strategy (fst s, snd s @ [P_strategy i (fst strategy)]) = (Inr ok, s2)"
    and no: "\<not> (effective (faces eng (fst s), ok, faces eng (fst s2))
                \<and> near_target target_faces (faces eng (fst s2)))"
    and pos: "ok \<longrightarrow> 0 < faces eng (fst s)"
  shows "run_strategies eng target_faces i (strategy # rest) success s =
           run_strategies eng target_faces (i + 1) rest
             (success \<or> effective (faces eng (fst s), ok, faces eng (fst s2)))
             (fst s2,
              snd s2 @ (if ok then [P_result (faces eng (fst s2))
                                     ((of_nat (faces eng (fst s)) - of_nat (faces eng (fst s2)))
                                        / of_nat (faces eng (fst s)) * 100)]
                        else []))"
proof (cases ok)
  case False
  then show ?thesis using st by (simp add: attempt_eq effective_def)
next
  case True
  with pos have p: "faces eng (fst s) \<noteq> 0" by simp
  show ?thesis
  proof (cases "effective (faces eng (fst s), ok, faces eng (fst s2))")
    case e: True
    with no have nn: "\<not> near_target target_faces (faces eng (fst s2))" by simp
    from e True have lt: "of_nat (faces eng (fst s2)) < of_nat (faces eng (fst s)) * (95 / 100 :: rat)"
      by (simp add: effective_def)
    from nn have n: "\<not> (of_int target_faces * (7 / 10 :: rat) \<le> of_nat (faces eng (fst s2))
      \<and> of_nat (faces eng (fst s2)) \<le> of_int target_faces * (13 / 10 :: rat))"
      by (simp add: near_target_def)
    have "attempt eng target_faces i strategy success s =
          (Inr (True, False),
            (fst s2, snd s2 @ [P_result (faces eng (fst s2))
                                 ((of_nat (faces eng (fst s)) - of_nat (faces eng (fst s2)))
                                    / of_nat (faces eng (fst s)) * 100)]))"
      unfolding attempt_eq st Let_def using True p lt n by simp
    with e True show ?thesis by simp
  next
    case e: False
    with True have lt: "\<not> of_nat (faces eng (fst s2)) < of_nat (faces eng (fst s)) * (95 / 100 :: rat)"
      by (simp add: effective_def)
    have "attempt eng target_faces i strategy success s =
          (Inr (success, False),
            (fst s2, snd s2 @ [P_result (faces eng (fst s2))
                                 ((of_nat (faces eng (fst s)) - of_nat (faces eng (fst s2)))
                                    / of_nat (faces eng (fst s)) * 100)]))"
      unfolding attempt_eq st Let_def using True p lt by simp
    with e True show ?thesis by simp
  qed
qed

lemma run_ignores_rest:
  assumes "attempt_trace eng target_faces i strats success s = pre @ r # post"
    and "effective r" and "near_target target_faces (snd (snd r))"
  shows "post = []
         \<and> fst (run_strategies eng target_faces i strats success s) = Inr True
         \<and> run_strategies eng target_faces i (take (Suc (length pre)) strats @ other) success s =
             run_strategies eng target_faces i strats success s"
  using assms(1)
proof (induction strats arbitrary: i success s pre)
  case Nil
  then show ?case by simp
next
  case (Cons strategy rest)
  show ?case
  proof (cases pre)
    case Nil
    with Cons.prems have tr: "attempt_trace eng target_faces i (strategy # rest) success s = r # post"
      by simp
    then have rec: "attempt_record eng i strategy s = Some r" by (rule trace_Cons)
    from attempt_stops [OF rec assms(2) assms(3)]
    obtain s' where at: "attempt eng target_faces i strategy success s = (Inr (True, True), s')"
      by blast
    from tr rec at have 1: "post = []" by simp
    have 2: "run_strategies eng target_faces i (strategy # xs) success s = (Inr True, s')" for xs
      using at by simp
    have 3: "take (Suc (length pre)) (strategy # rest) @ other = strategy # other"
      using Nil by simp
    show ?thesis unfolding 3 2 using 1 by simp
  next
    case (Cons p pre')
    with Cons.prems
    have tr: "attempt_trace eng target_faces i (strategy # rest) success s = p # (pre' @ r # post)"
      by simp
    then have rec: "attempt_record eng i strategy s = Some p" by (rule trace_Cons)
    obtain y s3 where at: "attempt eng target_faces i strategy success s = (y, s3)"
      by (cases "attempt eng target_faces i strategy success s")
    obtain success' where
      y: "y = Inr (success', False)"
      and t: "attempt_trace eng target_faces (i + 1) rest success' s3 = pre' @ r # post"
    proof (cases y)
      case (Inl e)
      with tr rec at show ?thesis by simp
    next
      case (Inr pr)
      obtain success' stop where pr: "pr = (success', stop)" by (cases pr)
      show ?thesis
      proof (cases stop)
        case True
        with tr rec at Inr pr show ?thesis by simp
      next
        case False
        with tr rec at Inr pr
        have "attempt_trace eng target_faces (i + 1) rest success' s3 = pre' @ r # post"
          by simp
        with that [of success'] Inr pr False show ?thesis by simp
      qed
    qed
    note ih = Cons.IH [OF t]
    have 2: "run_strategies eng target_faces i (strategy # xs) success s =
             run_strategies eng target_faces (i + 1) xs success' s3" for xs
      using at y by simp
    have 3: "take (Suc (length pre)) (strategy # rest) @ other =
             strategy # (take (Suc (length pre')) rest @ other)"
      using Cons by simp
    show ?thesis unfolding 3 2 using ih by blast
  qed
qed


lemma reduce_stops:
  assumes valid: "obj_name eng w = Inr nm" "obj_type eng w = ''MESH''" "100 \<le> faces eng w"
    and t: "attempt_trace eng (loop_target eng w target_reduction) 1
              (loop_strategies eng w target_reduction) False (loop_start eng w out) =
            pre @ r # post"
    and e: "effective r"
    and n: "near_target (loop_target eng w target_reduction) (snd (snd r))"
  shows "intelligent_mesh_reduction eng target_reduction (w, out) =
           finish eng (faces eng w) True
             (snd (run_strategies eng (loop_target eng w target_reduction) 1
                     (take (Suc (length pre)) (loop_strategies eng w target_reduction))
                     False (loop_start eng w out)))"
proof -
  from run_ignores_rest [OF t e n]
  have f: "fst (run_strategies eng (loop_target eng w target_reduction) 1
                  (loop_strategies eng w target_reduction) False (loop_start eng w out)) =
           Inr True"
    and o: "run_strategies eng (loop_target eng w target_reduction) 1
              (take (Suc (length pre)) (loop_strategies eng w target_reduction) @ [])
              False (loop_start eng w out) =
            run_strategies eng (loop_target eng w target_reduction) 1
              (loop_strategies eng w target_reduction) False (loop_start eng w out)"
    by blast+
  obtain s1 where run: "run_strategies eng (loop_target eng w target_reduction) 1
              (loop_strategies eng w target_reduction) False (loop_start eng w out) =
            (Inr True, s1)"
    using f by (metis prod.collapse)
  from o run
  have "snd (run_strategies eng (loop_target eng w target_reduction) 1
               (take (Suc (length pre)) (loop_strategies eng w target_reduction))
               False (loop_start eng w out)) = s1"
    by simp
  then show ?thesis using run by (simp add: reduce_eq [OF valid] Let_def)
qed

text \<open>
  C3, as the code has it. The \<^verbatim>\<open>break\<close> sits inside the test for an effective attempt.
  When a strategy returns true, has cut the face count to below 0.95 times what it found
  and has landed within 0.7 to 1.3 times the target, \<open>run_strategies\<close> returns at once with
  the flag set, in the state that strategy left plus the two lines printed: the strategies
  that remain in the list are not called. In every other case, also when the face count is
  within the range but the attempt is not effective, \<open>run_strategies\<close> goes on with the
  remaining strategies. At whatever position of a run an effective attempt lands in the
  range, it is the last attempt of the run, the run returns true, and the run is the same
  for any other strategies in place of those after it. For \<open>intelligent_mesh_reduction\<close>
  on a valid mesh of at least 100 faces this means that the call goes from the state which
  the strategies up to that attempt have left straight to the post-processing and the final
  statistics.
\<close>

theorem early_stop:
  "(snd strategy (fst s, snd s @ [P_strategy i (fst strategy)]) = (Inr True, s_after)
      \<and> effective (faces eng (fst s), True, faces eng (fst s_after))
      \<and> near_target target_faces (faces eng (fst s_after))
    \<longrightarrow> run_strategies eng target_faces i (strategy # rest) success s =
          (Inr True,
           (fst s_after, snd s_after @ [P_result (faces eng (fst s_after))
                                ((of_nat (faces eng (fst s)) - of_nat (faces eng (fst s_after)))
                                   / of_nat (faces eng (fst s)) * 100),
                              P_near_target])))
   \<and> (snd strategy (fst s, snd s @ [P_strategy i (fst strategy)]) = (Inr ok, s_after)
      \<and> \<not> (effective (faces eng (fst s), ok, faces eng (fst s_after))
             \<and> near_target target_faces (faces eng (fst s_after)))
      \<and> (ok \<longrightarrow> 0 < faces eng (fst s))
    \<longrightarrow> run_strategies eng target_faces i (strategy # rest) success s =
          run_strategies eng target_faces (i + 1) rest
            (success \<or> effective (faces eng (fst s), ok, faces eng (fst s_after)))
            (fst s_after,
             snd s_after @ (if ok then [P_result (faces eng (fst s_after))
                                    ((of_nat (faces eng (fst s)) - of_nat (faces eng (fst s_after)))
                                       / of_nat (faces eng (fst s)) * 100)]
                       else [])))
   \<and> (attempt_trace eng target_faces i strats success s = pre @ r # post
      \<and> effective r \<and> near_target target_faces (snd (snd r))
    \<longrightarrow> post = []
        \<and> fst (run_strategies eng target_faces i strats success s) = Inr True
        \<and> (\<forall>other. run_strategies eng target_faces i
                      (take (Suc (length pre)) strats @ other) success s =
                    run_strategies eng target_faces i strats success s))
   \<and> (obj_name eng w = Inr nm \<and> obj_type eng w = ''MESH'' \<and> 100 \<le> faces eng w
      \<and> attempt_trace eng (loop_target eng w target_reduction) 1
            (loop_strategies eng w target_reduction) False (loop_start eng w out) =
          pre @ r # post
      \<and> effective r \<and> near_target (loop_target eng w target_reduction) (snd (snd r))
    \<longrightarrow> intelligent_mesh_reduction eng target_reduction (w, out) =
          finish eng (faces eng w) True
            (snd (run_strategies eng (loop_target eng w target_reduction) 1
                    (take (Suc (length pre)) (loop_strategies eng w target_reduction))
                    False (loop_start eng w out))))"
proof (intro conjI impI)
  assume "snd strategy (fst s, snd s @ [P_strategy i (fst strategy)]) = (Inr True, s_after)
      \<and> effective (faces eng (fst s), True, faces eng (fst s_after))
      \<and> near_target target_faces (faces eng (fst s_after))"
  then show "run_strategies eng target_faces i (strategy # rest) success s =
          (Inr True,
           (fst s_after, snd s_after @ [P_result (faces eng (fst s_after))
                                ((of_nat (faces eng (fst s)) - of_nat (faces eng (fst s_after)))
                                   / of_nat (faces eng (fst s)) * 100),
                              P_near_target]))"
    using run_break by blast
next
  assume "snd strategy (fst s, snd s @ [P_strategy i (fst strategy)]) = (Inr ok, s_after)
      \<and> \<not> (effective (faces eng (fst s), ok, faces eng (fst s_after))
             \<and> near_target target_faces (faces eng (fst s_after)))
      \<and> (ok \<longrightarrow> 0 < faces eng (fst s))"
  then show "run_strategies eng target_faces i (strategy # rest) success s =
          run_strategies eng target_faces (i + 1) rest
            (success \<or> effective (faces eng (fst s), ok, faces eng (fst s_after)))
            (fst s_after,
             snd s_after @ (if ok then [P_result (faces eng (fst s_after))
                                    ((of_nat (faces eng (fst s)) - of_nat (faces eng (fst s_after)))
                                       / of_nat (faces eng (fst s)) * 100)]
                       else []))"
    using run_no_break [of strategy s i ok s_after eng target_faces rest success] by blast
next
  assume a: "attempt_trace eng target_faces i strats success s = pre @ r # post
      \<and> effective r \<and> near_target target_faces (snd (snd r))"
  then have t: "attempt_trace eng target_faces i strats success s = pre @ r # post"
    and e: "effective r" and n: "near_target target_faces (snd (snd r))" by simp_all
  from run_ignores_rest [OF t e n] show "post = []" by simp
  from run_ignores_rest [OF t e n]
  show "fst (run_strategies eng target_faces i strats success s) = Inr True" by simp
  show "\<forall>other. run_strategies eng target_faces i
                      (take (Suc (length pre)) strats @ other) success s =
                    run_strategies eng target_faces i strats success s"
    using run_ignores_rest [OF t e n] by simp
next
  assume "obj_name eng w = Inr nm \<and> obj_type eng w = ''MESH'' \<and> 100 \<le> faces eng w
      \<and> attempt_trace eng (loop_target eng w target_reduction) 1
            (loop_strategies eng w target_reduction) False (loop_start eng w out) =
          pre @ r # post
      \<and> effective r \<and> near_target (loop_target eng w target_reduction) (snd (snd r))"
  then show "intelligent_mesh_reduction eng target_reduction (w, out) =
          finish eng (faces eng w) True
            (snd (run_strategies eng (loop_target eng w target_reduction) 1
                    (take (Suc (length pre)) (loop_strategies eng w target_reduction))
                    False (loop_start eng w out)))"
    using reduce_stops [of eng w nm target_reduction out pre r post] by blast
qed


theorem early_stop_witness:
  "run_strategies (toy_engine (k_trim 40)) 50 1
     (strategies (toy_engine (k_trim 40)) ''structured'' (1 / 2)) False (quad_mesh 100, []) =
     (Inr True,
      ((quad_mesh 100)\<lparr>tw_polys := replicate 60 4\<rparr>,
       [P_strategy 1 ''Conservative Quadric'', P_quadric (7 / 20), P_result 60 40,
        P_near_target]))
   \<and> effective (100, True, 60) \<and> near_target 50 60
   \<and> run_strategies (toy_engine (k_trim 3)) 96 1
       (strategies (toy_engine (k_trim 3)) ''structured'' (1 / 25)) False (quad_mesh 100, []) =
     run_strategies (toy_engine (k_trim 3)) 96 2
       (tl (strategies (toy_engine (k_trim 3)) ''structured'' (1 / 25))) False
       ((quad_mesh 100)\<lparr>tw_polys := replicate 97 4\<rparr>,
        [P_strategy 1 ''Conservative Quadric'', P_quadric (7 / 250), P_result 97 3])
   \<and> near_target 96 97 \<and> \<not> effective (100, True, 97)
   \<and> attempt_trace (toy_engine (k_trim 40)) 50 1
       (strategies (toy_engine (k_trim 40)) ''structured'' (1 / 2)) False (quad_mesh 100, []) =
     [] @ (100, True, 60) # []
   \<and> length (strategies (toy_engine (k_trim 40)) ''structured'' (1 / 2)) = 4
   \<and> attempt_trace (toy_engine (k_trim 40)) 50 1
       (strategies (toy_engine (k_trim 40)) ''structured'' (1 / 2)) False
       (quad_mesh 100,
        [P_begin 100, P_analysis 100 102 1 (51 / 50), P_mesh_type ''structured'']) =
     [] @ (100, True, 60) # []
   \<and> intelligent_mesh_reduction (toy_engine (k_trim 40)) (1 / 2) (quad_mesh 100, []) =
     finish (toy_engine (k_trim 40)) 100 True
       ((quad_mesh 100)\<lparr>tw_polys := replicate 60 4\<rparr>,
        [P_begin 100, P_analysis 100 102 1 (51 / 50), P_mesh_type ''structured'',
         P_strategy 1 ''Conservative Quadric'', P_quadric (7 / 20), P_result 60 40,
         P_near_target])"
  using
    early_stop [where eng = "toy_engine (k_trim 40)" and target_faces = 50 and i = 1
      and strategy = "(''Conservative Quadric'',
                       try_quadric_decimate (toy_engine (k_trim 40)) (7 / 20) True)"
      and rest = "tl (strategies (toy_engine (k_trim 40)) ''structured'' (1 / 2))"
      and success = False and s = "(quad_mesh 100, [])" and ok = True
      and s_after = "((quad_mesh 100)\<lparr>tw_polys := replicate 60 4\<rparr>,
                 [P_strategy 1 ''Conservative Quadric'', P_quadric (7 / 20)])"
      and strats = "strategies (toy_engine (k_trim 40)) ''structured'' (1 / 2)"
      and pre = "[]" and r = "(100, True, 60)" and post = "[]"
      and w = "quad_mesh 100" and nm = "''Mesh''" and target_reduction = "1 / 2"
      and out = "[]"]
    early_stop [where eng = "toy_engine (k_trim 3)" and target_faces = 96 and i = 1
      and strategy = "(''Conservative Quadric'',
                       try_quadric_decimate (toy_engine (k_trim 3)) (7 / 250) True)"
      and rest = "tl (strategies (toy_engine (k_trim 3)) ''structured'' (1 / 25))"
      and success = False and s = "(quad_mesh 100, [])" and ok = True
      and s_after = "((quad_mesh 100)\<lparr>tw_polys := replicate 97 4\<rparr>,
                 [P_strategy 1 ''Conservative Quadric'', P_quadric (7 / 250)])"
      and strats = "[]" and pre = "[]" and r = "(100, True, 60)" and post = "[]"]
  by (simp add: strategies_def attempt_record_def attempt_eq prim_defs py_defs toy_simps
      toy_apply_def quad_mesh_def Let_def effective_def near_target_def classify_def
      quadRatio_def vertexFaceRatio_def py_int_def)

text \<open>
  C3 as stated fails: a structured mesh of 100 faces with a target reduction of 0.04 has a
  target of 96 faces. The first strategy returns true and leaves 97 faces, within 67.2 to
  124.8, but 97 is not below 95, so the loop goes on and the three remaining strategies
  run.
\<close>

theorem early_stop_counterexample:
  "py_int (of_nat 100 * (1 - 1 / 25)) = 96
   \<and> attempt_trace (toy_engine (k_trim 3)) 96 1
       (strategies (toy_engine (k_trim 3)) ''structured'' (1 / 25)) False (quad_mesh 100, []) =
       [] @ (100, True, 97) # [(97, True, 94), (94, True, 91), (91, True, 88)]
   \<and> of_int 96 * (7 / 10 :: rat) \<le> of_nat 97 \<and> of_nat 97 \<le> of_int 96 * (13 / 10 :: rat)"
  by (simp add: strategies_def attempt_record_def attempt_eq prim_defs py_defs toy_simps
      toy_apply_def quad_mesh_def Let_def py_int_def)

section \<open>The value returned\<close>

lemma handler_total:
  assumes "\<forall>w. fst (mode_set eng ''OBJECT'' w) = None"
  shows "\<not> isl (fst ((py_then (py_print ev)
            (py_then (py_call (mode_set eng ''OBJECT'')) (py_return False))) s))"
proof -
  obtain a w' where m: "mode_set eng ''OBJECT'' (fst s) = (a, w')"
    by (cases "mode_set eng ''OBJECT'' (fst s)")
  with assms have "a = None" by (metis fst_conv)
  with m show ?thesis by (simp add: py_defs)
qed

lemma smooth_total:
  assumes "\<forall>w. fst (mode_set eng ''OBJECT'' w) = None"
  shows "\<not> isl (fst (apply_smart_smooth eng s))"
  unfolding apply_smart_smooth_def py_try_def
  using handler_total [OF assms]
  by (simp split: prod.splits sum.splits)

lemma finish_unset:
  assumes "0 < n"
  shows "finish eng n False s =
           (Inr (faces eng (fst s) < n),
            (fst s, snd s @ [closing_line n (faces eng (fst s))]))"
  using assms by (simp add: finish_eq py_return_def closing_line_def)

lemma finish_set:
  assumes "0 < n" and "apply_smart_smooth eng (fst s, snd s @ [P_postprocess]) = (Inr x, s1)"
  shows "finish eng n True s =
           (Inr (faces eng (fst s1) < n),
            (fst s1, snd s1 @ [closing_line n (faces eng (fst s1))]))"
  using assms by (simp add: finish_eq py_defs closing_line_def)

lemma reduce_total:
  assumes laws: "bookkeeping_keeps_faces eng" "no_faces_from_none eng"
    and mode: "\<forall>w. fst (mode_set eng ''OBJECT'' w) = None"
    and valid: "obj_name eng w = Inr nm" "obj_type eng w = ''MESH''" "100 \<le> faces eng w"
  shows "\<exists>s'. intelligent_mesh_reduction eng target_reduction (w, out) =
                 (Inr (faces eng (fst s') < faces eng w), s')
              \<and> last (snd s') = closing_line (faces eng w) (faces eng (fst s'))"
proof -
  have pos: "0 < faces eng w" using valid(3) by simp
  from not_isl_Inr [OF run_total [OF laws subset_refl]]
  obtain success s1 where run:
    "run_strategies eng (loop_target eng w target_reduction) 1
       (loop_strategies eng w target_reduction) False (loop_start eng w out) = (Inr success, s1)"
    by blast
  have red: "intelligent_mesh_reduction eng target_reduction (w, out) =
               finish eng (faces eng w) success s1"
    using run by (simp add: reduce_eq [OF valid] Let_def)
  show ?thesis
  proof (cases success)
    case False
    with red finish_unset [OF pos, of eng s1] show ?thesis by simp
  next
    case True
    from not_isl_Inr [OF smooth_total [OF mode]]
    obtain x s2 where "apply_smart_smooth eng (fst s1, snd s1 @ [P_postprocess]) = (Inr x, s2)"
      by blast
    from finish_set [OF pos this] red True show ?thesis by simp
  qed
qed

lemma run_fail:
  "run_strategies (toy_engine k_fail) 50 1
     (strategies (toy_engine k_fail) ''structured'' (1 / 2)) False
     (quad_mesh 100, [P_begin 100, P_analysis 100 102 1 (51 / 50), P_mesh_type ''structured'']) =
     (Inr False,
      ((quad_mesh 100)\<lparr>tw_mods := [(''PlanarDecimate'', Decimate_dissolve 5 False)]\<rparr>,
       [P_begin 100, P_analysis 100 102 1 (51 / 50), P_mesh_type ''structured'',
        P_strategy 1 ''Conservative Quadric'', P_quadric (7 / 20),
        P_quadric_failed RuntimeError,
        P_strategy 2 ''Un-Subdivide'', P_unsubdiv 2, P_unsubdiv_failed RuntimeError,
        P_strategy 3 ''Standard Quadric'', P_quadric (1 / 2), P_quadric_failed RuntimeError,
        P_strategy 4 ''Planar Dissolve'', P_planar 5, P_planar_failed RuntimeError]))"
  by (simp add: strategies_def attempt_eq prim_defs py_defs toy_simps toy_apply_def
      quad_mesh_def k_fail_def Let_def)

lemma reduce_fail:
  "intelligent_mesh_reduction (toy_engine k_fail) (1 / 2) (quad_mesh 100, []) =
     (Inr False,
      ((quad_mesh 100)\<lparr>tw_mods := [(''PlanarDecimate'', Decimate_dissolve 5 False)]\<rparr>,
       [P_begin 100, P_analysis 100 102 1 (51 / 50), P_mesh_type ''structured'',
        P_strategy 1 ''Conservative Quadric'', P_quadric (7 / 20),
        P_quadric_failed RuntimeError,
        P_strategy 2 ''Un-Subdivide'', P_unsubdiv 2, P_unsubdiv_failed RuntimeError,
        P_strategy 3 ''Standard Quadric'', P_quadric (1 / 2), P_quadric_failed RuntimeError,
        P_strategy 4 ''Planar Dissolve'', P_planar 5, P_planar_failed RuntimeError,
        P_not_reduced]))"
  apply (subst reduce_eq [of _ _ "''Mesh''"])
     apply (simp_all add: toy_simps quad_mesh_def)
  apply (simp add: classify_def quadRatio_def vertexFaceRatio_def toy_simps py_int_def Let_def
      strategies_def attempt_eq prim_defs py_defs toy_apply_def finish_eq apply_smart_smooth_def
      quad_mesh_def k_fail_def)
  done


lemma run_trim40:
  "run_strategies (toy_engine (k_trim 40)) 50 1
     (strategies (toy_engine (k_trim 40)) ''structured'' (1 / 2)) False
     (quad_mesh 100, [P_begin 100, P_analysis 100 102 1 (51 / 50), P_mesh_type ''structured'']) =
     (Inr True,
      ((quad_mesh 100)\<lparr>tw_polys := replicate 60 4\<rparr>,
       [P_begin 100, P_analysis 100 102 1 (51 / 50), P_mesh_type ''structured'',
        P_strategy 1 ''Conservative Quadric'', P_quadric (7 / 20), P_result 60 40,
        P_near_target]))"
  by (simp add: strategies_def attempt_eq prim_defs py_defs toy_simps toy_apply_def
      quad_mesh_def Let_def)

text \<open>
  C1. The value returned is the comparison of the face count read after the loop and the
  post-processing with the original count, and it is not the sticky flag: with the flag
  unset \<open>finish\<close> returns that comparison at once, true or false, and with the flag set it
  returns it in the state the post-processing leaves. On a valid mesh of at least 100 faces
  \<open>intelligent_mesh_reduction\<close> returns the same comparison in the state the loop, and then
  the post-processing, ended in. With an engine that keeps the face count in its
  bookkeeping calls, makes no faces out of none and does not refuse the switch to object
  mode, the call always returns, true exactly when the final count is below the original
  one. The line printed last gives the reduction in percent,
  (original - final) / original * 100, on a success and says that the count did not change
  on a failure.
\<close>

theorem final_recheck:
  "(0 < original_faces \<longrightarrow>
      finish eng original_faces False s =
        (Inr (faces eng (fst s) < original_faces),
         (fst s, snd s @ [closing_line original_faces (faces eng (fst s))])))
   \<and> (0 < original_faces
       \<and> apply_smart_smooth eng (fst s, snd s @ [P_postprocess]) = (Inr x, s_smooth) \<longrightarrow>
      finish eng original_faces True s =
        (Inr (faces eng (fst s_smooth) < original_faces),
         (fst s_smooth,
          snd s_smooth @ [closing_line original_faces (faces eng (fst s_smooth))])))
   \<and> (finish eng original_faces success s = (Inr b, s') \<longrightarrow>
      b = (faces eng (fst s') < original_faces))
   \<and> (obj_name eng w = Inr nm \<and> obj_type eng w = ''MESH'' \<and> 100 \<le> faces eng w
       \<and> run_strategies eng (loop_target eng w target_reduction) 1
            (loop_strategies eng w target_reduction) False (loop_start eng w out) =
            (Inr False, s_loop) \<longrightarrow>
      intelligent_mesh_reduction eng target_reduction (w, out) =
        (Inr (faces eng (fst s_loop) < faces eng w),
         (fst s_loop, snd s_loop @ [closing_line (faces eng w) (faces eng (fst s_loop))])))
   \<and> (obj_name eng w = Inr nm \<and> obj_type eng w = ''MESH'' \<and> 100 \<le> faces eng w
       \<and> run_strategies eng (loop_target eng w target_reduction) 1
            (loop_strategies eng w target_reduction) False (loop_start eng w out) =
            (Inr True, s_loop)
       \<and> apply_smart_smooth eng (fst s_loop, snd s_loop @ [P_postprocess]) = (Inr x, s_smooth)
      \<longrightarrow>
      intelligent_mesh_reduction eng target_reduction (w, out) =
        (Inr (faces eng (fst s_smooth) < faces eng w),
         (fst s_smooth,
          snd s_smooth @ [closing_line (faces eng w) (faces eng (fst s_smooth))])))
   \<and> (bookkeeping_keeps_faces eng \<and> no_faces_from_none eng
       \<and> (\<forall>v. fst (mode_set eng ''OBJECT'' v) = None)
       \<and> obj_name eng w = Inr nm \<and> obj_type eng w = ''MESH'' \<and> 100 \<le> faces eng w \<longrightarrow>
      (\<exists>s_end. intelligent_mesh_reduction eng target_reduction (w, out) =
                  (Inr (faces eng (fst s_end) < faces eng w), s_end)
               \<and> last (snd s_end) = closing_line (faces eng w) (faces eng (fst s_end))))
   \<and> (obj_name eng w = Inr nm \<and> obj_type eng w = ''MESH'' \<and> 100 \<le> faces eng w \<and>
      intelligent_mesh_reduction eng target_reduction (w, out) = (Inr result, s'') \<longrightarrow>
        result = (faces eng (fst s'') < faces eng w)
        \<and> (result \<longrightarrow> last (snd s'') =
              P_reduced (faces eng w) (faces eng (fst s''))
                ((of_nat (faces eng w) - of_nat (faces eng (fst s''))) / of_nat (faces eng w) * 100))
        \<and> (\<not> result \<longrightarrow> last (snd s'') = P_not_reduced))"
proof -
  have 1: "0 < original_faces \<longrightarrow>
      finish eng original_faces False s =
        (Inr (faces eng (fst s) < original_faces),
         (fst s, snd s @ [closing_line original_faces (faces eng (fst s))]))"
    using finish_unset by blast
  have 2: "0 < original_faces
       \<and> apply_smart_smooth eng (fst s, snd s @ [P_postprocess]) = (Inr x, s_smooth) \<longrightarrow>
      finish eng original_faces True s =
        (Inr (faces eng (fst s_smooth) < original_faces),
         (fst s_smooth,
          snd s_smooth @ [closing_line original_faces (faces eng (fst s_smooth))]))"
    using finish_set by blast
  have 3: "finish eng original_faces success s = (Inr b, s') \<longrightarrow>
      b = (faces eng (fst s') < original_faces)"
    using finish_result(1) by blast
  have 4: "obj_name eng w = Inr nm \<and> obj_type eng w = ''MESH'' \<and> 100 \<le> faces eng w
       \<and> run_strategies eng (loop_target eng w target_reduction) 1
            (loop_strategies eng w target_reduction) False (loop_start eng w out) =
            (Inr False, s_loop) \<longrightarrow>
      intelligent_mesh_reduction eng target_reduction (w, out) =
        (Inr (faces eng (fst s_loop) < faces eng w),
         (fst s_loop, snd s_loop @ [closing_line (faces eng w) (faces eng (fst s_loop))]))"
  proof
    assume a: "obj_name eng w = Inr nm \<and> obj_type eng w = ''MESH'' \<and> 100 \<le> faces eng w
       \<and> run_strategies eng (loop_target eng w target_reduction) 1
            (loop_strategies eng w target_reduction) False (loop_start eng w out) =
            (Inr False, s_loop)"
    then have "intelligent_mesh_reduction eng target_reduction (w, out) =
               finish eng (faces eng w) False s_loop"
      by (simp add: reduce_eq [of eng w nm] Let_def)
    with a finish_unset [of "faces eng w" eng s_loop]
    show "intelligent_mesh_reduction eng target_reduction (w, out) =
        (Inr (faces eng (fst s_loop) < faces eng w),
         (fst s_loop, snd s_loop @ [closing_line (faces eng w) (faces eng (fst s_loop))]))"
      by simp
  qed
  have 5: "obj_name eng w = Inr nm \<and> obj_type eng w = ''MESH'' \<and> 100 \<le> faces eng w
       \<and> run_strategies eng (loop_target eng w target_reduction) 1
            (loop_strategies eng w target_reduction) False (loop_start eng w out) =
            (Inr True, s_loop)
       \<and> apply_smart_smooth eng (fst s_loop, snd s_loop @ [P_postprocess]) = (Inr x, s_smooth)
      \<longrightarrow>
      intelligent_mesh_reduction eng target_reduction (w, out) =
        (Inr (faces eng (fst s_smooth) < faces eng w),
         (fst s_smooth,
          snd s_smooth @ [closing_line (faces eng w) (faces eng (fst s_smooth))]))"
  proof
    assume a: "obj_name eng w = Inr nm \<and> obj_type eng w = ''MESH'' \<and> 100 \<le> faces eng w
       \<and> run_strategies eng (loop_target eng w target_reduction) 1
            (loop_strategies eng w target_reduction) False (loop_start eng w out) =
            (Inr True, s_loop)
       \<and> apply_smart_smooth eng (fst s_loop, snd s_loop @ [P_postprocess]) = (Inr x, s_smooth)"
    then have "intelligent_mesh_reduction eng target_reduction (w, out) =
               finish eng (faces eng w) True s_loop"
      by (simp add: reduce_eq [of eng w nm] Let_def)
    with a finish_set [of "faces eng w" eng s_loop x s_smooth]
    show "intelligent_mesh_reduction eng target_reduction (w, out) =
        (Inr (faces eng (fst s_smooth) < faces eng w),
         (fst s_smooth,
          snd s_smooth @ [closing_line (faces eng w) (faces eng (fst s_smooth))]))"
      by simp
  qed
  have 6: "bookkeeping_keeps_faces eng \<and> no_faces_from_none eng
       \<and> (\<forall>v. fst (mode_set eng ''OBJECT'' v) = None)
       \<and> obj_name eng w = Inr nm \<and> obj_type eng w = ''MESH'' \<and> 100 \<le> faces eng w \<longrightarrow>
      (\<exists>s_end. intelligent_mesh_reduction eng target_reduction (w, out) =
                  (Inr (faces eng (fst s_end) < faces eng w), s_end)
               \<and> last (snd s_end) = closing_line (faces eng w) (faces eng (fst s_end)))"
    using reduce_total [of eng w nm target_reduction out] by blast
  have 7: "obj_name eng w = Inr nm \<and> obj_type eng w = ''MESH'' \<and> 100 \<le> faces eng w \<and>
      intelligent_mesh_reduction eng target_reduction (w, out) = (Inr result, s'') \<longrightarrow>
        result = (faces eng (fst s'') < faces eng w)
        \<and> (result \<longrightarrow> last (snd s'') =
              P_reduced (faces eng w) (faces eng (fst s''))
                ((of_nat (faces eng w) - of_nat (faces eng (fst s''))) / of_nat (faces eng w) * 100))
        \<and> (\<not> result \<longrightarrow> last (snd s'') = P_not_reduced)"
  proof
    assume a: "obj_name eng w = Inr nm \<and> obj_type eng w = ''MESH'' \<and> 100 \<le> faces eng w \<and>
      intelligent_mesh_reduction eng target_reduction (w, out) = (Inr result, s'')"
    then obtain success s1 where f: "finish eng (faces eng w) success s1 = (Inr result, s'')"
      by (auto simp add: reduce_eq [of eng w nm] Let_def split: prod.splits sum.splits)
    from finish_result [OF f]
    show "result = (faces eng (fst s'') < faces eng w)
        \<and> (result \<longrightarrow> last (snd s'') =
              P_reduced (faces eng w) (faces eng (fst s''))
                ((of_nat (faces eng w) - of_nat (faces eng (fst s''))) / of_nat (faces eng w) * 100))
        \<and> (\<not> result \<longrightarrow> last (snd s'') = P_not_reduced)"
      by blast
  qed
  from 1 2 3 4 5 6 7 show ?thesis by (intro conjI)
qed


theorem final_recheck_witness:
  "intelligent_mesh_reduction (toy_engine k_fail) (1 / 2) (quad_mesh 100, []) =
     (Inr False,
      ((quad_mesh 100)\<lparr>tw_mods := [(''PlanarDecimate'', Decimate_dissolve 5 False)]\<rparr>,
       [P_begin 100, P_analysis 100 102 1 (51 / 50), P_mesh_type ''structured'',
        P_strategy 1 ''Conservative Quadric'', P_quadric (7 / 20),
        P_quadric_failed RuntimeError,
        P_strategy 2 ''Un-Subdivide'', P_unsubdiv 2, P_unsubdiv_failed RuntimeError,
        P_strategy 3 ''Standard Quadric'', P_quadric (1 / 2), P_quadric_failed RuntimeError,
        P_strategy 4 ''Planar Dissolve'', P_planar 5, P_planar_failed RuntimeError,
        P_not_reduced]))
   \<and> finish (toy_engine k_fail) 100 False (quad_mesh 100, []) =
       (Inr False, (quad_mesh 100, [P_not_reduced]))
   \<and> finish (toy_engine k_fail) 100 True (quad_mesh 100, []) =
       (Inr False,
        ((quad_mesh 100)\<lparr>tw_mods := [(''EdgeSplit'', Edge_split 30)]\<rparr>,
         [P_postprocess, P_smooth_failed RuntimeError, P_not_reduced]))
   \<and> closing_line 100 100 = P_not_reduced
   \<and> run_strategies (toy_engine k_fail) 50 1
       (strategies (toy_engine k_fail) ''structured'' (1 / 2)) False
       (quad_mesh 100,
        [P_begin 100, P_analysis 100 102 1 (51 / 50), P_mesh_type ''structured'']) =
     (Inr False,
      ((quad_mesh 100)\<lparr>tw_mods := [(''PlanarDecimate'', Decimate_dissolve 5 False)]\<rparr>,
       [P_begin 100, P_analysis 100 102 1 (51 / 50), P_mesh_type ''structured'',
        P_strategy 1 ''Conservative Quadric'', P_quadric (7 / 20),
        P_quadric_failed RuntimeError,
        P_strategy 2 ''Un-Subdivide'', P_unsubdiv 2, P_unsubdiv_failed RuntimeError,
        P_strategy 3 ''Standard Quadric'', P_quadric (1 / 2), P_quadric_failed RuntimeError,
        P_strategy 4 ''Planar Dissolve'', P_planar 5, P_planar_failed RuntimeError]))
   \<and> run_strategies (toy_engine (k_trim 40)) 50 1
       (strategies (toy_engine (k_trim 40)) ''structured'' (1 / 2)) False
       (quad_mesh 100,
        [P_begin 100, P_analysis 100 102 1 (51 / 50), P_mesh_type ''structured'']) =
     (Inr True,
      ((quad_mesh 100)\<lparr>tw_polys := replicate 60 4\<rparr>,
       [P_begin 100, P_analysis 100 102 1 (51 / 50), P_mesh_type ''structured'',
        P_strategy 1 ''Conservative Quadric'', P_quadric (7 / 20), P_result 60 40,
        P_near_target]))
   \<and> bookkeeping_keeps_faces (toy_engine k_fail) \<and> no_faces_from_none (toy_engine k_fail)
   \<and> intelligent_mesh_reduction (toy_engine (k_trim 40)) (1 / 2) (quad_mesh 100, []) =
     (Inr True, ((quad_mesh 100)\<lparr>tw_polys := replicate 60 4\<rparr>,
        [P_begin 100, P_analysis 100 102 1 (51 / 50), P_mesh_type ''structured'',
         P_strategy 1 ''Conservative Quadric'', P_quadric (7 / 20), P_result 60 40,
         P_near_target, P_postprocess, P_reduced 100 60 40]))
   \<and> finish (toy_engine (k_trim 40)) 100 False
         ((quad_mesh 100)\<lparr>tw_polys := replicate 60 4\<rparr>, []) =
       (Inr True, ((quad_mesh 100)\<lparr>tw_polys := replicate 60 4\<rparr>, [P_reduced 100 60 40]))
   \<and> finish (toy_engine (k_trim 40)) 100 True
         ((quad_mesh 100)\<lparr>tw_polys := replicate 60 4\<rparr>, []) =
       (Inr True, ((quad_mesh 100)\<lparr>tw_polys := replicate 60 4\<rparr>,
          [P_postprocess, P_reduced 100 60 40]))
   \<and> closing_line 100 60 = P_reduced 100 60 40"
  using final_recheck [where eng = "toy_engine k_fail" and original_faces = 100
      and s = "(quad_mesh 100, [])" and x = False
      and s_smooth = "((quad_mesh 100)\<lparr>tw_mods := [(''EdgeSplit'', Edge_split 30)]\<rparr>,
         [P_postprocess, P_smooth_failed RuntimeError])"
      and success = True and b = False
      and s' = "((quad_mesh 100)\<lparr>tw_mods := [(''EdgeSplit'', Edge_split 30)]\<rparr>,
         [P_postprocess, P_smooth_failed RuntimeError, P_not_reduced])"
      and w = "quad_mesh 100" and nm = "''Mesh''" and target_reduction = "1 / 2" and out = "[]"
      and s_loop = "((quad_mesh 100)\<lparr>tw_mods := [(''PlanarDecimate'', Decimate_dissolve 5 False)]\<rparr>,
       [P_begin 100, P_analysis 100 102 1 (51 / 50), P_mesh_type ''structured'',
        P_strategy 1 ''Conservative Quadric'', P_quadric (7 / 20),
        P_quadric_failed RuntimeError,
        P_strategy 2 ''Un-Subdivide'', P_unsubdiv 2, P_unsubdiv_failed RuntimeError,
        P_strategy 3 ''Standard Quadric'', P_quadric (1 / 2), P_quadric_failed RuntimeError,
        P_strategy 4 ''Planar Dissolve'', P_planar 5, P_planar_failed RuntimeError])"
      and result = False
      and s'' = "((quad_mesh 100)\<lparr>tw_mods := [(''PlanarDecimate'', Decimate_dissolve 5 False)]\<rparr>,
       [P_begin 100, P_analysis 100 102 1 (51 / 50), P_mesh_type ''structured'',
        P_strategy 1 ''Conservative Quadric'', P_quadric (7 / 20),
        P_quadric_failed RuntimeError,
        P_strategy 2 ''Un-Subdivide'', P_unsubdiv 2, P_unsubdiv_failed RuntimeError,
        P_strategy 3 ''Standard Quadric'', P_quadric (1 / 2), P_quadric_failed RuntimeError,
        P_strategy 4 ''Planar Dissolve'', P_planar 5, P_planar_failed RuntimeError,
        P_not_reduced])"]
    final_recheck [where eng = "toy_engine (k_trim 40)" and original_faces = 100
      and s = "((quad_mesh 100)\<lparr>tw_polys := replicate 60 4\<rparr>, [])" and x = True
      and s_smooth = "((quad_mesh 100)\<lparr>tw_polys := replicate 60 4\<rparr>, [P_postprocess])"
      and success = False and b = True
      and s' = "((quad_mesh 100)\<lparr>tw_polys := replicate 60 4\<rparr>, [P_reduced 100 60 40])"
      and w = "quad_mesh 100" and nm = "''Mesh''" and target_reduction = "1 / 2" and out = "[]"
      and s_loop = "((quad_mesh 100)\<lparr>tw_polys := replicate 60 4\<rparr>,
        [P_begin 100, P_analysis 100 102 1 (51 / 50), P_mesh_type ''structured'',
         P_strategy 1 ''Conservative Quadric'', P_quadric (7 / 20), P_result 60 40,
         P_near_target])"
      and result = True
      and s'' = "((quad_mesh 100)\<lparr>tw_polys := replicate 60 4\<rparr>,
        [P_begin 100, P_analysis 100 102 1 (51 / 50), P_mesh_type ''structured'',
         P_strategy 1 ''Conservative Quadric'', P_quadric (7 / 20), P_result 60 40,
         P_near_target, P_postprocess, P_reduced 100 60 40])"]
    reduce_fail reduce_trim40 run_fail run_trim40 toy_laws [of k_fail]
  by (simp add: toy_simps quad_mesh_def finish_eq py_defs apply_smart_smooth_def toy_apply_def
      k_fail_def closing_line_def)

end
